theory Spec2Isabelle
  imports Main "HOL-Library.Char_ord" "HOL-Library.List_Lexorder" "HOL-Library.Multiset"
begin

section \<open>Python values, objects and exceptions\<close>

text \<open>
  The tools of \<^verbatim>\<open>src/tools/devicehub_tools.py\<close> handle dynamically typed values: JSON
  arguments, and the driver, device and tag records of the hub's SDK, read with attribute
  access. \<open>PDict\<close> is a JSON object (a \<^verbatim>\<open>dict\<close> with string keys, in insertion order),
  \<open>PObj\<close> an SDK object given by its attributes. An attribute that is missing is not in
  the list; an attribute that is null is in the list with the value \<open>PNone\<close>.
  Floating-point numbers are left out.
\<close>

datatype pyval =
    PNone
  | PBool bool
  | PInt int
  | PStr string
  | PList "pyval list"
  | PDict "(string \<times> pyval) list"
  | PObj "(string \<times> pyval) list"

type_synonym dict = "(string \<times> pyval) list"

text \<open>The two classifications of \<^verbatim>\<open>mcp.types\<close> that the tools raise.\<close>

datatype errcode = INVALID_PARAMS | INTERNAL_ERROR

text \<open>
  \<^verbatim>\<open>identifier = f"name '{tag_name}'"\<close> or \<^verbatim>\<open>f"ID '{tag_id}'"\<close>: the message
  templates are kept with the values they interpolate, not rendered to text.
\<close>

datatype ident = ByName pyval | ById pyval

datatype message =
    ParameterRequired string
  | TagIdRequiredForUpdates
  | EitherTagNameOrTagId
  | EitherTagNameTagIdOrTagIds
  | DriverNotFound pyval "pyval list"
  | DeviceNotFound pyval
  | TagNotFound ident pyval
  | NoOutputTopic ident
  | NoMatchingTags
  | CreationNoResults
  | UpdateNoResults

text \<open>
  Exceptions of class \<^verbatim>\<open>Exception\<close>: \<open>McpError\<close> (deliberately raised, with its
  \<^verbatim>\<open>ErrorData\<close>), the errors Python itself raises on the values above, and \<open>SdkError\<close>
  for whatever a call into the hub's SDK raises (given by its \<^verbatim>\<open>str\<close>). Signals that
  are not of class \<^verbatim>\<open>Exception\<close> (an interrupt, the cancellation of the running task)
  are outside the model.
\<close>

datatype exn =
    McpError errcode message
  | AttributeError string
  | KeyError string
  | TypeError
  | SdkError string

text \<open>
  Python's truth value of an object, as \<^verbatim>\<open>if x\<close> and \<^verbatim>\<open>not x\<close> take it. An SDK
  object is true (the SDK's records define no length or truth value of their own).
\<close>

fun truthy :: "pyval \<Rightarrow> bool" where
  "truthy PNone = False"
| "truthy (PBool b) = b"
| "truthy (PInt i) = (i \<noteq> 0)"
| "truthy (PStr s) = (s \<noteq> [])"
| "truthy (PList xs) = (xs \<noteq> [])"
| "truthy (PDict kvs) = (kvs \<noteq> [])"
| "truthy (PObj kvs) = True"

text \<open>
  Python's \<^verbatim>\<open>==\<close>: \<^verbatim>\<open>True == 1\<close> and \<^verbatim>\<open>False == 0\<close>, also inside lists; otherwise
  values are equal when they are the same. \<open>canon\<close> maps a value to the representative
  of its equality class. Dicts and objects are compared entry by entry, in order.
\<close>

primrec canon :: "pyval \<Rightarrow> pyval" where
  "canon PNone = PNone"
| "canon (PBool b) = PInt (if b then 1 else 0)"
| "canon (PInt i) = PInt i"
| "canon (PStr s) = PStr s"
| "canon (PList xs) = PList (map canon xs)"
| "canon (PDict kvs) = PDict (map (map_prod id canon) kvs)"
| "canon (PObj kvs) = PObj (map (map_prod id canon) kvs)"

definition py_eq :: "pyval \<Rightarrow> pyval \<Rightarrow> bool" where
  "py_eq a b = (canon a = canon b)"

text \<open>\<^verbatim>\<open>obj.a\<close> raises AttributeError when the attribute is missing.\<close>

definition attr :: "pyval \<Rightarrow> string \<Rightarrow> exn + pyval" where
  "attr obj a =
     (case obj of
        PObj kvs \<Rightarrow> (case map_of kvs a of Some v \<Rightarrow> Inr v | None \<Rightarrow> Inl (AttributeError a))
      | _ \<Rightarrow> Inl (AttributeError a))"

text \<open>\<^verbatim>\<open>getattr(obj, a, dflt)\<close>.\<close>

definition getattr :: "pyval \<Rightarrow> string \<Rightarrow> pyval \<Rightarrow> pyval" where
  "getattr obj a dflt =
     (case obj of
        PObj kvs \<Rightarrow> (case map_of kvs a of Some v \<Rightarrow> v | None \<Rightarrow> dflt)
      | _ \<Rightarrow> dflt)"

text \<open>\<^verbatim>\<open>d.get(k, dflt)\<close> and \<^verbatim>\<open>d[k]\<close> on a dict with string keys.\<close>

definition dict_get :: "dict \<Rightarrow> string \<Rightarrow> pyval \<Rightarrow> pyval" where
  "dict_get d k dflt = (case map_of d k of Some v \<Rightarrow> v | None \<Rightarrow> dflt)"

definition dict_item :: "dict \<Rightarrow> string \<Rightarrow> exn + pyval" where
  "dict_item d k = (case map_of d k of Some v \<Rightarrow> Inr v | None \<Rightarrow> Inl (KeyError k))"

text \<open>\<^verbatim>\<open>{k: v for k, v in info.items() if v is not None}\<close>.\<close>

definition drop_none :: "dict \<Rightarrow> dict" where
  "drop_none info = filter (\<lambda>kv. snd kv \<noteq> PNone) info"

section \<open>The field normalizers\<close>

text \<open>The body of the loop of \<^verbatim>\<open>get_litmusedge_driver_list\<close> (lines 30-38).\<close>

definition driver_info :: "pyval \<Rightarrow> exn + dict" where
  "driver_info driver =
     (case attr driver ''name'' of
        Inl e \<Rightarrow> Inl e
      | Inr n \<Rightarrow>
          Inr (drop_none
            [(''name'', n),
             (''id'', getattr driver ''id'' PNone),
             (''protocol'', getattr driver ''protocol'' PNone),
             (''version'', getattr driver ''version'' PNone),
             (''description'', getattr driver ''description'' PNone),
             (''category'', getattr driver ''category'' PNone)]))"

text \<open>
  \<^verbatim>\<open>_build_device_info\<close> (lines 368-381). The default of \<^verbatim>\<open>metadata\<close> is the string
  \<^verbatim>\<open>"unknown"\<close>, not \<^verbatim>\<open>None\<close>.
\<close>

definition build_device_info :: "pyval \<Rightarrow> exn + dict" where
  "build_device_info device =
     (case attr device ''name'' of
        Inl e \<Rightarrow> Inl e
      | Inr n \<Rightarrow>
          Inr (drop_none
            [(''name'', n),
             (''id'', getattr device ''id'' PNone),
             (''driver'', getattr device ''driver'' PNone),
             (''metadata'', getattr device ''metadata'' (PStr ''unknown'')),
             (''description'', getattr device ''description'' PNone),
             (''properties'', getattr device ''properties'' PNone)]))"

text \<open>The tag record of \<^verbatim>\<open>get_devicehub_device_tags\<close> (lines 226-236).\<close>

definition device_tag_info :: "pyval \<Rightarrow> exn + dict" where
  "device_tag_info current_tag =
     (case attr current_tag ''tag_name'' of
        Inl e \<Rightarrow> Inl e
      | Inr n \<Rightarrow>
          Inr (drop_none
            [(''tag_name'', n),
             (''id'', getattr current_tag ''id'' PNone),
             (''address'', getattr current_tag ''address'' PNone),
             (''data_type'', getattr current_tag ''data_type'' PNone),
             (''scaling'', getattr current_tag ''scaling'' PNone),
             (''read_write'', getattr current_tag ''read_write'' PNone),
             (''unit'', getattr current_tag ''unit'' PNone),
             (''description'', getattr current_tag ''description'' PNone)]))"

text \<open>
  The tag record of \<^verbatim>\<open>list_all_devicehub_tags\<close> (lines 428-436), \<^verbatim>\<open>create_devicehub_tag\<close>
  (lines 521-529) and \<^verbatim>\<open>update_devicehub_tag\<close> (lines 622-630): the same six fields in
  the three places.
\<close>

definition tag_info :: "pyval \<Rightarrow> exn + dict" where
  "tag_info tag =
     (case attr tag ''tag_name'' of
        Inl e \<Rightarrow> Inl e
      | Inr n \<Rightarrow>
          Inr (drop_none
            [(''tag_name'', n),
             (''id'', getattr tag ''id'' PNone),
             (''device'', getattr tag ''device'' PNone),
             (''value_type'', getattr tag ''value_type'' PNone),
             (''description'', getattr tag ''description'' PNone),
             (''publish_cov'', getattr tag ''publish_cov'' PNone)]))"

section \<open>Control flow, iteration and sorting\<close>

text \<open>Sequencing of steps that may raise: the first exception ends the block.\<close>

definition then_do :: "exn + 'a \<Rightarrow> ('a \<Rightarrow> exn + 'b) \<Rightarrow> exn + 'b" where
  "then_do m f = (case m of Inl e \<Rightarrow> Inl e | Inr x \<Rightarrow> f x)"

text \<open>A loop that builds a list from each element and stops at the first exception.\<close>

fun map_exn :: "('a \<Rightarrow> exn + 'b) \<Rightarrow> 'a list \<Rightarrow> exn + 'b list" where
  "map_exn f [] = Inr []"
| "map_exn f (x # xs) =
     (case f x of
        Inl e \<Rightarrow> Inl e
      | Inr y \<Rightarrow> (case map_exn f xs of Inl e \<Rightarrow> Inl e | Inr ys \<Rightarrow> Inr (y # ys)))"

text \<open>
  \<^verbatim>\<open>for x in v\<close>: a list gives its elements, a string its characters, a dict its keys;
  \<^verbatim>\<open>None\<close>, numbers and SDK objects are not iterable.
\<close>

fun py_iter :: "pyval \<Rightarrow> exn + pyval list" where
  "py_iter (PList xs) = Inr xs"
| "py_iter (PStr s) = Inr (map (\<lambda>c. PStr [c]) s)"
| "py_iter (PDict kvs) = Inr (map (\<lambda>kv. PStr (fst kv)) kvs)"
| "py_iter PNone = Inl TypeError"
| "py_iter (PBool b) = Inl TypeError"
| "py_iter (PInt i) = Inl TypeError"
| "py_iter (PObj kvs) = Inl TypeError"

text \<open>
  \<^verbatim>\<open>next((x for x in xs if x.a == v), None)\<close>: the first element whose attribute \<open>a\<close>
  equals \<open>v\<close>, or \<^verbatim>\<open>None\<close>. Every element before the match is asked for \<open>a\<close>. The
  loop of \<^verbatim>\<open>_find_device_by_name\<close> (lines 362-365) is the same scan.
\<close>

fun next_by :: "string \<Rightarrow> pyval \<Rightarrow> pyval list \<Rightarrow> exn + pyval" where
  "next_by a v [] = Inr PNone"
| "next_by a v (x # xs) =
     (case attr x a of
        Inl e \<Rightarrow> Inl e
      | Inr w \<Rightarrow> if py_eq w v then Inr x else next_by a v xs)"

text \<open>
  Python's \<^verbatim>\<open><\<close> orders strings with strings (by code point) and numbers with numbers
  (\<^verbatim>\<open>True\<close> is 1); every other comparison of the values above raises TypeError, here
  \<open>None\<close>. The order between two lists is not modelled (the names, ids and device
  references that are sorted are never lists): \<open>py_lt\<close> reports them as unordered.
\<close>

datatype sortkey = KNum int | KStr string

fun sort_class :: "pyval \<Rightarrow> sortkey option" where
  "sort_class (PBool b) = Some (KNum (if b then 1 else 0))"
| "sort_class (PInt i) = Some (KNum i)"
| "sort_class (PStr s) = Some (KStr s)"
| "sort_class PNone = None"
| "sort_class (PList xs) = None"
| "sort_class (PDict kvs) = None"
| "sort_class (PObj kvs) = None"

fun key_lt :: "sortkey \<Rightarrow> sortkey \<Rightarrow> bool option" where
  "key_lt (KNum x) (KNum y) = Some (x < y)"
| "key_lt (KStr s) (KStr t) = Some (s < t)"
| "key_lt (KNum x) (KStr t) = None"
| "key_lt (KStr s) (KNum y) = None"

definition py_lt :: "pyval \<Rightarrow> pyval \<Rightarrow> bool option" where
  "py_lt a b =
     (case sort_class a of
        None \<Rightarrow> None
      | Some x \<Rightarrow> (case sort_class b of None \<Rightarrow> None | Some y \<Rightarrow> key_lt x y))"

text \<open>
  \<^verbatim>\<open><\<close> on the pairs \<^verbatim>\<open>(device, tag_name)\<close>: the first components that differ decide.
\<close>

definition py_lt_pair :: "pyval \<times> pyval \<Rightarrow> pyval \<times> pyval \<Rightarrow> bool option" where
  "py_lt_pair p q =
     (if \<not> py_eq (fst p) (fst q) then py_lt (fst p) (fst q)
      else if \<not> py_eq (snd p) (snd q) then py_lt (snd p) (snd q)
      else Some False)"

text \<open>
  \<^verbatim>\<open>xs.sort(key=...)\<close>: the keys are computed first (a missing key raises KeyError), then
  the list is sorted with \<^verbatim>\<open><\<close> alone, stably. A list of at most one element is never
  compared. For longer lists the sort raises TypeError when it meets two keys that
  \<^verbatim>\<open><\<close> does not order; the model raises when any two keys of the list are unordered.
\<close>

fun insort_lt :: "('k \<Rightarrow> 'k \<Rightarrow> bool option) \<Rightarrow> 'k \<times> 'a \<Rightarrow> ('k \<times> 'a) list \<Rightarrow> ('k \<times> 'a) list" where
  "insort_lt lt x [] = [x]"
| "insort_lt lt x (y # ys) =
     (if lt (fst y) (fst x) = Some True then y # insort_lt lt x ys else x # y # ys)"

definition py_sort :: "('a \<Rightarrow> exn + 'k) \<Rightarrow> ('k \<Rightarrow> 'k \<Rightarrow> bool option) \<Rightarrow> 'a list \<Rightarrow> exn + 'a list" where
  "py_sort key lt xs =
     then_do (map_exn key xs) (\<lambda>ks.
       if length xs \<le> 1 then Inr xs
       else if list_all (\<lambda>a. list_all (\<lambda>b. lt a b \<noteq> None) ks) ks
         then Inr (map snd (foldr (insort_lt lt) (zip ks xs) []))
       else Inl TypeError)"

text \<open>
  A dict of counts keyed by values, \<^verbatim>\<open>counts[k] = counts.get(k, 0) + 1\<close>: keys that are
  equal (\<^verbatim>\<open>==\<close>) share an entry, and a list or a dict as key raises TypeError
  (unhashable).
\<close>

fun hashable :: "pyval \<Rightarrow> bool" where
  "hashable (PList xs) = False"
| "hashable (PDict kvs) = False"
| "hashable v = True"

fun count_key :: "pyval \<Rightarrow> (pyval \<times> nat) list \<Rightarrow> (pyval \<times> nat) list" where
  "count_key k [] = [(k, 1)]"
| "count_key k (kn # rest) =
     (if py_eq (fst kn) k then (fst kn, snd kn + 1) # rest else kn # count_key k rest)"

definition bump :: "pyval \<Rightarrow> (pyval \<times> nat) list \<Rightarrow> exn + (pyval \<times> nat) list" where
  "bump k counts = (if hashable k then Inr (count_key k counts) else Inl TypeError)"

text \<open>The counts as they appear in a result: a list of pairs of key and count.\<close>

definition counts_value :: "(pyval \<times> nat) list \<Rightarrow> pyval" where
  "counts_value counts = PList (map (\<lambda>kn. PList [fst kn, PInt (int (snd kn))]) counts)"

section \<open>The hub and the response envelope\<close>

text \<open>
  What the collaborators answer during one call of a tool. The SDK calls
  (\<^verbatim>\<open>litmussdk.devicehub\<close>) return a value or raise an exception of their own, given by
  its text; \<^verbatim>\<open>get_litmus_connection\<close> and \<^verbatim>\<open>get_current_value_on_topic\<close> belong to this
  server and may also raise \<^verbatim>\<open>McpError\<close>. Each is called at most once per tool call.
  \<open>new_Device\<close> and \<open>new_Tag\<close> are the constructors \<^verbatim>\<open>devices.Device(...)\<close> and
  \<^verbatim>\<open>Tag(...)\<close>, given their keyword arguments; \<open>create_device\<close> returns the attributes of
  the created Device (its \<^verbatim>\<open>__dict__\<close>).
\<close>

record hub =
  get_litmus_connection :: "exn + unit"
  list_all_drivers :: "string + pyval list"
  get_default_properties :: "pyval \<Rightarrow> string + pyval"
  list_devices :: "string + pyval list"
  new_Device :: "dict \<Rightarrow> string + pyval"
  create_device :: "pyval \<Rightarrow> string + dict"
  list_registers_from_single_device :: "pyval \<Rightarrow> string + pyval list"
  list_all_tags :: "string + pyval list"
  new_Tag :: "dict \<Rightarrow> string + pyval"
  create_tags :: "pyval list \<Rightarrow> string + pyval list"
  update_tags :: "pyval list \<Rightarrow> string + pyval list"
  delete_tag :: "pyval \<Rightarrow> string + unit"
  delete_tags :: "pyval list \<Rightarrow> string + unit"
  get_current_value_on_topic :: "pyval \<Rightarrow> exn + pyval"

definition sdk :: "string + 'a \<Rightarrow> exn + 'a" where
  "sdk r = (case r of Inl s \<Rightarrow> Inl (SdkError s) | Inr x \<Rightarrow> Inr x)"

text \<open>
  The calls a tool issues that change the hub's catalog, and the live-value lookup, in
  the order issued.
\<close>

datatype remote_call =
    CreateDevice pyval
  | CreateTags "pyval list"
  | UpdateTags "pyval list"
  | DeleteTag pyval
  | DeleteTags "pyval list"
  | CurrentValueOnTopic pyval

text \<open>
  Modelled from the spec: \<^verbatim>\<open>format_success_response\<close> and \<^verbatim>\<open>format_error_response\<close> of
  \<^verbatim>\<open>utils/formatting.py\<close> are not among the sources. Section 4.6: every operation returns
  one of two shapes, a success envelope wrapping the result mapping, or an error envelope
  with a reason code, a message and the default fields. The message is \<^verbatim>\<open>str(e)\<close>; the
  envelope keeps the exception \<open>e\<close> itself.
\<close>

datatype response = Success dict | Failure string exn dict

definition format_success_response :: "dict \<Rightarrow> response" where
  "format_success_response result = Success result"

definition format_error_response :: "string \<Rightarrow> exn \<Rightarrow> dict \<Rightarrow> response" where
  "format_error_response reason e extras = Failure reason e extras"

text \<open>
  The two handlers that close every tool:
  \<^verbatim>\<open>except McpError: raise\<close> and
  \<^verbatim>\<open>except Exception as e: return format_error_response(reason, str(e), ...)\<close>.
\<close>

definition boundary :: "string \<Rightarrow> dict \<Rightarrow> exn + response \<Rightarrow> exn + response" where
  "boundary reason extras body =
     (case body of
        Inr r \<Rightarrow> Inr r
      | Inl (McpError c m) \<Rightarrow> Inl (McpError c m)
      | Inl e \<Rightarrow> Inr (format_error_response reason e extras))"

text \<open>
  A tool that issues one remote call: the steps before the call (if one raises, nothing
  is issued), the call, and the steps after it.
\<close>

definition issuing :: "exn + 'a \<Rightarrow> ('a \<Rightarrow> remote_call) \<Rightarrow> ('a \<Rightarrow> exn + 'b) \<Rightarrow> remote_call list \<times> (exn + 'b)" where
  "issuing prepare call finish =
     (case prepare of Inl e \<Rightarrow> ([], Inl e) | Inr x \<Rightarrow> ([call x], finish x))"

section \<open>The tools\<close>

text \<open>
  \<^verbatim>\<open>arguments.get(k)\<close> is \<open>dict_get arguments k PNone\<close>. A raised
  \<^verbatim>\<open>McpError(ErrorData(code=c, message=m))\<close> is \<open>Inl (McpError c m)\<close>.
\<close>

subsection \<open>\<^verbatim>\<open>get_litmusedge_driver_list\<close> (lines 16-56)\<close>


subsection \<open>\<^verbatim>\<open>get_devicehub_devices\<close> (lines 59-104)\<close>

text \<open>The loop of lines 72-79: every device is normalized, then kept or skipped.\<close>

fun devices_loop :: "pyval \<Rightarrow> pyval list \<Rightarrow> exn + dict list" where
  "devices_loop filter_by_driver [] = Inr []"
| "devices_loop filter_by_driver (current_device # rest) =
     then_do (build_device_info current_device) (\<lambda>device_info.
     then_do (devices_loop filter_by_driver rest) (\<lambda>device_data.
       if truthy filter_by_driver
          \<and> \<not> py_eq (dict_get device_info ''driver'' PNone) filter_by_driver
       then Inr device_data
       else Inr (device_info # device_data)))"

text \<open>\<^verbatim>\<open>_create_device_summary\<close> (lines 384-394).\<close>

fun driver_counts_loop :: "dict list \<Rightarrow> (pyval \<times> nat) list \<Rightarrow> exn + (pyval \<times> nat) list" where
  "driver_counts_loop [] driver_counts = Inr driver_counts"
| "driver_counts_loop (device # rest) driver_counts =
     then_do (bump (dict_get device ''driver'' (PStr ''unknown'')) driver_counts)
       (driver_counts_loop rest)"

definition create_device_summary :: "dict list \<Rightarrow> exn + dict" where
  "create_device_summary device_data =
     then_do (driver_counts_loop device_data []) (\<lambda>driver_counts.
       Inr [(''by_driver'', counts_value driver_counts)])"

definition get_devicehub_devices :: "hub \<Rightarrow> dict \<Rightarrow> exn + response" where
  "get_devicehub_devices h arguments =
     boundary ''retrieval_failed'' [(''count'', PInt 0), (''devices'', PList [])]
      (let filter_by_driver = dict_get arguments ''filter_by_driver'' PNone in
       then_do (get_litmus_connection h) (\<lambda>connection.
       then_do (sdk (list_devices h)) (\<lambda>device_list.
       then_do (devices_loop filter_by_driver device_list) (\<lambda>device_data.
       then_do (py_sort (\<lambda>x. dict_item x ''name'') py_lt device_data) (\<lambda>device_data.
       then_do (create_device_summary device_data) (\<lambda>summary.
         Inr (format_success_response
           ([(''count'', PInt (int (length device_data))),
             (''devices'', PList (map PDict device_data)),
             (''summary'', PDict summary)]
            @ (if truthy filter_by_driver
               then [(''filters_applied'', PDict [(''driver'', filter_by_driver)])]
               else [])))))))))"

subsection \<open>\<^verbatim>\<open>_find_device_by_name\<close> (lines 359-365)\<close>

definition find_device_by_name :: "hub \<Rightarrow> pyval \<Rightarrow> exn + pyval" where
  "find_device_by_name h device_name =
     then_do (sdk (list_devices h)) (\<lambda>device_list. next_by ''name'' device_name device_list)"

subsection \<open>\<^verbatim>\<open>create_devicehub_device\<close> (lines 107-188)\<close>




subsection \<open>\<^verbatim>\<open>get_devicehub_device_tags\<close> (lines 191-255)\<close>


subsection \<open>\<^verbatim>\<open>get_current_value_of_devicehub_tag\<close> (lines 258-356)\<close>

text \<open>
  Lines 319-326: the \<^verbatim>\<open>topic\<close> of the first element of \<^verbatim>\<open>requested_tag.topics\<close> whose
  \<^verbatim>\<open>direction\<close> is \<^verbatim>\<open>"Output"\<close>, or \<^verbatim>\<open>None\<close>.
\<close>

fun first_output_topic :: "pyval list \<Rightarrow> exn + pyval" where
  "first_output_topic [] = Inr PNone"
| "first_output_topic (topic # rest) =
     then_do (attr topic ''direction'') (\<lambda>direction.
       if py_eq direction (PStr ''Output'') then attr topic ''topic''
       else first_output_topic rest)"

text \<open>Lines 301-308: the tag and the words that name it in messages.\<close>

definition find_requested_tag :: "pyval list \<Rightarrow> pyval \<Rightarrow> pyval \<Rightarrow> exn + pyval \<times> ident" where
  "find_requested_tag tag_list tag_name tag_id =
     (if truthy tag_name
      then then_do (next_by ''tag_name'' tag_name tag_list) (\<lambda>requested_tag.
             Inr (requested_tag, ByName tag_name))
      else then_do (next_by ''id'' tag_id tag_list) (\<lambda>requested_tag.
             Inr (requested_tag, ById tag_id)))"

definition get_current_value_of_devicehub_tag :: "hub \<Rightarrow> dict \<Rightarrow> remote_call list \<times> (exn + response)" where
  "get_current_value_of_devicehub_tag h arguments =
     apsnd (boundary ''read_failed'' [])
      (let device_name = dict_get arguments ''device_name'' PNone;
           tag_name = dict_get arguments ''tag_name'' PNone;
           tag_id = dict_get arguments ''tag_id'' PNone in
       issuing
        (if \<not> truthy device_name
           then Inl (McpError INVALID_PARAMS (ParameterRequired ''device_name''))
         else if \<not> truthy tag_name \<and> \<not> truthy tag_id
           then Inl (McpError INVALID_PARAMS EitherTagNameOrTagId)
         else
           then_do (get_litmus_connection h) (\<lambda>connection.
           then_do (find_device_by_name h device_name) (\<lambda>requested_device.
             if \<not> truthy requested_device
               then Inl (McpError INVALID_PARAMS (DeviceNotFound device_name))
             else
               then_do (sdk (list_registers_from_single_device h requested_device)) (\<lambda>tag_list.
               then_do (find_requested_tag tag_list tag_name tag_id) (\<lambda>found.
                 let requested_tag = fst found; identifier = snd found in
                 if \<not> truthy requested_tag
                   then Inl (McpError INVALID_PARAMS (TagNotFound identifier device_name))
                 else
                   then_do (attr requested_tag ''topics'') (\<lambda>topics.
                   then_do (py_iter topics) (\<lambda>topics.
                   then_do (first_output_topic topics) (\<lambda>requested_value_from_topic.
                     if \<not> truthy requested_value_from_topic
                       then Inl (McpError INTERNAL_ERROR (NoOutputTopic identifier))
                     else Inr (requested_value_from_topic, requested_tag)))))))))
        (\<lambda>selected. CurrentValueOnTopic (fst selected))
        (\<lambda>selected.
           let requested_value_from_topic = fst selected; requested_tag = snd selected in
           then_do (get_current_value_on_topic h requested_value_from_topic) (\<lambda>value_data.
           then_do (if truthy tag_name then Inr tag_name else attr requested_tag ''tag_name'')
             (\<lambda>result_tag_name.
           then_do (if truthy tag_id then Inr tag_id else attr requested_tag ''id'')
             (\<lambda>result_tag_id.
             Inr (format_success_response
               [(''device_name'', device_name),
                (''tag_name'', result_tag_name),
                (''tag_id'', result_tag_id),
                (''data'', value_data)]))))))"

subsection \<open>\<^verbatim>\<open>list_all_devicehub_tags\<close> (lines 397-461)\<close>

text \<open>
  Lines 421-426: with a filter, a tag is skipped when it has a \<^verbatim>\<open>device_name\<close> that is
  truthy and differs from the filter; a tag without one is kept.
\<close>

definition skipped_by_filter :: "pyval \<Rightarrow> pyval \<Rightarrow> bool" where
  "skipped_by_filter device_name_filter current_tag =
     (truthy device_name_filter \<and>
      (let tag_device_name = getattr current_tag ''device_name'' PNone in
       truthy tag_device_name \<and> \<not> py_eq tag_device_name device_name_filter))"

text \<open>The loop of lines 416-440, with its two accumulators.\<close>

fun all_tags_loop ::
  "pyval \<Rightarrow> pyval list \<Rightarrow> dict list \<Rightarrow> (pyval \<times> nat) list \<Rightarrow> exn + dict list \<times> (pyval \<times> nat) list" where
  "all_tags_loop device_name_filter [] tag_data device_counts = Inr (tag_data, device_counts)"
| "all_tags_loop device_name_filter (current_tag # rest) tag_data device_counts =
     (let device_id = getattr current_tag ''device'' PNone in
      if skipped_by_filter device_name_filter current_tag
      then all_tags_loop device_name_filter rest tag_data device_counts
      else
        then_do (tag_info current_tag) (\<lambda>info.
        then_do (bump (if truthy device_id then device_id else PStr ''unknown'') device_counts)
          (\<lambda>device_counts.
            all_tags_loop device_name_filter rest (tag_data @ [info]) device_counts)))"

definition list_all_devicehub_tags :: "hub \<Rightarrow> dict \<Rightarrow> exn + response" where
  "list_all_devicehub_tags h arguments =
     boundary ''retrieval_failed'' [(''count'', PInt 0), (''tags'', PList [])]
      (let device_name_filter = dict_get arguments ''device_name'' PNone in
       then_do (get_litmus_connection h) (\<lambda>connection.
       then_do (sdk (list_all_tags h)) (\<lambda>all_tags.
       then_do (all_tags_loop device_name_filter all_tags [] []) (\<lambda>acc.
         let device_counts = snd acc in
         then_do (py_sort
                   (\<lambda>x. Inr (dict_get x ''device'' (PStr []), dict_get x ''tag_name'' (PStr [])))
                   py_lt_pair (fst acc)) (\<lambda>tag_data.
           Inr (format_success_response
             ([(''count'', PInt (int (length tag_data))),
               (''tags'', PList (map PDict tag_data)),
               (''summary'', PDict [(''by_device'', counts_value device_counts)])]
              @ (if truthy device_name_filter
                 then [(''filters_applied'', PDict [(''device_name'', device_name_filter)])]
                 else []))))))))"

subsection \<open>\<^verbatim>\<open>create_devicehub_tag\<close> (lines 464-551)\<close>

definition create_devicehub_tag :: "hub \<Rightarrow> dict \<Rightarrow> remote_call list \<times> (exn + response)" where
  "create_devicehub_tag h arguments =
     apsnd (boundary ''creation_failed'' [])
      (let device_name = dict_get arguments ''device_name'' PNone;
           tag_name = dict_get arguments ''tag_name'' PNone;
           value_type = dict_get arguments ''value_type'' PNone;
           description = dict_get arguments ''description'' (PStr []);
           properties = dict_get arguments ''properties'' (PList []);
           publish_cov = dict_get arguments ''publish_cov'' (PBool False) in
       issuing
        (if \<not> truthy device_name
           then Inl (McpError INVALID_PARAMS (ParameterRequired ''device_name''))
         else if \<not> truthy tag_name
           then Inl (McpError INVALID_PARAMS (ParameterRequired ''tag_name''))
         else if \<not> truthy value_type
           then Inl (McpError INVALID_PARAMS (ParameterRequired ''value_type''))
         else
           then_do (get_litmus_connection h) (\<lambda>connection.
           then_do (find_device_by_name h device_name) (\<lambda>requested_device.
             if \<not> truthy requested_device
               then Inl (McpError INVALID_PARAMS (DeviceNotFound device_name))
             else
               then_do (attr requested_device ''id'') (\<lambda>device_id.
                 sdk (new_Tag h
                   [(''device'', device_id),
                    (''tag_name'', tag_name),
                    (''value_type'', value_type),
                    (''description'', description),
                    (''properties'', properties),
                    (''publish_cov'', publish_cov)])))))
        (\<lambda>new_tag. CreateTags [new_tag])
        (\<lambda>new_tag.
           then_do (sdk (create_tags h [new_tag])) (\<lambda>created_tags.
             case created_tags of
               created_tag # others \<Rightarrow>
                 then_do (tag_info created_tag) (\<lambda>info.
                   Inr (format_success_response
                     [(''device_name'', device_name), (''tag'', PDict info)]))
             | [] \<Rightarrow> Inl (McpError INTERNAL_ERROR CreationNoResults))))"

subsection \<open>\<^verbatim>\<open>update_devicehub_tag\<close> (lines 554-652)\<close>

text \<open>\<^verbatim>\<open>obj.a = v\<close> on an SDK object: the attribute is replaced, or added.\<close>

fun assign :: "string \<Rightarrow> pyval \<Rightarrow> dict \<Rightarrow> dict" where
  "assign a v [] = [(a, v)]"
| "assign a v (kv # rest) = (if fst kv = a then (a, v) # rest else kv # assign a v rest)"

definition setattr :: "pyval \<Rightarrow> string \<Rightarrow> pyval \<Rightarrow> pyval" where
  "setattr obj a v = (case obj of PObj kvs \<Rightarrow> PObj (assign a v kvs) | other \<Rightarrow> other)"

text \<open>One \<^verbatim>\<open>if new is not None: existing_tag.a = new\<close> of lines 606-615.\<close>

definition update_field :: "dict \<Rightarrow> string \<Rightarrow> pyval \<Rightarrow> pyval" where
  "update_field arguments a existing_tag =
     (let new = dict_get arguments a PNone in
      if new \<noteq> PNone then setattr existing_tag a new else existing_tag)"

definition merge_fields :: "dict \<Rightarrow> pyval \<Rightarrow> pyval" where
  "merge_fields arguments existing_tag =
     update_field arguments ''publish_cov''
      (update_field arguments ''properties''
       (update_field arguments ''description''
        (update_field arguments ''value_type''
         (update_field arguments ''tag_name'' existing_tag))))"

definition update_devicehub_tag :: "hub \<Rightarrow> dict \<Rightarrow> remote_call list \<times> (exn + response)" where
  "update_devicehub_tag h arguments =
     apsnd (boundary ''update_failed'' [])
      (let device_name = dict_get arguments ''device_name'' PNone;
           tag_id = dict_get arguments ''tag_id'' PNone in
       issuing
        (if \<not> truthy device_name
           then Inl (McpError INVALID_PARAMS (ParameterRequired ''device_name''))
         else if \<not> truthy tag_id
           then Inl (McpError INVALID_PARAMS TagIdRequiredForUpdates)
         else
           then_do (get_litmus_connection h) (\<lambda>connection.
           then_do (find_device_by_name h device_name) (\<lambda>requested_device.
             if \<not> truthy requested_device
               then Inl (McpError INVALID_PARAMS (DeviceNotFound device_name))
             else
               then_do (sdk (list_registers_from_single_device h requested_device)) (\<lambda>tag_list.
               then_do (next_by ''id'' tag_id tag_list) (\<lambda>existing_tag.
                 if \<not> truthy existing_tag
                   then Inl (McpError INVALID_PARAMS (TagNotFound (ById tag_id) device_name))
                 else Inr (merge_fields arguments existing_tag))))))
        (\<lambda>existing_tag. UpdateTags [existing_tag])
        (\<lambda>existing_tag.
           then_do (sdk (update_tags h [existing_tag])) (\<lambda>updated_tags.
             case updated_tags of
               updated_tag # others \<Rightarrow>
                 then_do (tag_info updated_tag) (\<lambda>info.
                   Inr (format_success_response
                     [(''device_name'', device_name), (''tag'', PDict info)]))
             | [] \<Rightarrow> Inl (McpError INTERNAL_ERROR UpdateNoResults))))"

subsection \<open>\<^verbatim>\<open>delete_devicehub_tag\<close> (lines 655-750)\<close>

text \<open>
  Lines 705-708, 711-714 and 717-720: one lookup; a tag that is found is appended to
  \<^verbatim>\<open>tags_to_delete\<close> and its name to \<^verbatim>\<open>deleted_tag_names\<close>, an identifier without a
  match appends nothing.
\<close>

definition append_found :: "string \<Rightarrow> pyval \<Rightarrow> pyval list \<Rightarrow> pyval list \<times> pyval list \<Rightarrow> exn + pyval list \<times> pyval list" where
  "append_found a v tag_list acc =
     then_do (next_by a v tag_list) (\<lambda>found_tag.
       if truthy found_tag
       then then_do (attr found_tag ''tag_name'') (\<lambda>found_name.
              Inr (fst acc @ [found_tag], snd acc @ [found_name]))
       else Inr acc)"

fun tag_ids_loop :: "pyval list \<Rightarrow> pyval list \<Rightarrow> pyval list \<times> pyval list \<Rightarrow> exn + pyval list \<times> pyval list" where
  "tag_ids_loop [] tag_list acc = Inr acc"
| "tag_ids_loop (tid # rest) tag_list acc =
     then_do (append_found ''id'' tid tag_list acc) (tag_ids_loop rest tag_list)"

text \<open>Lines 699-720: \<^verbatim>\<open>tags_to_delete\<close> and \<^verbatim>\<open>deleted_tag_names\<close>.\<close>

definition find_tags_to_delete :: "pyval list \<Rightarrow> pyval \<Rightarrow> pyval \<Rightarrow> pyval \<Rightarrow> exn + pyval list \<times> pyval list" where
  "find_tags_to_delete tag_list tag_name tag_id tag_ids =
     (if truthy tag_ids
        then then_do (py_iter tag_ids) (\<lambda>tids. tag_ids_loop tids tag_list ([], []))
      else if truthy tag_id then append_found ''id'' tag_id tag_list ([], [])
      else if truthy tag_name then append_found ''tag_name'' tag_name tag_list ([], [])
      else Inr ([], []))"

text \<open>
  Lines 731-734: \<^verbatim>\<open>tags.delete_tag\<close> for one tag, \<^verbatim>\<open>tags.delete_tags\<close> otherwise.
\<close>

definition delete_call :: "pyval list \<Rightarrow> remote_call" where
  "delete_call tags_to_delete =
     (case tags_to_delete of [t] \<Rightarrow> DeleteTag t | ts \<Rightarrow> DeleteTags ts)"

definition run_delete :: "hub \<Rightarrow> pyval list \<Rightarrow> exn + unit" where
  "run_delete h tags_to_delete =
     (case tags_to_delete of
        [t] \<Rightarrow> sdk (delete_tag h t)
      | ts \<Rightarrow> sdk (delete_tags h ts))"

definition delete_devicehub_tag :: "hub \<Rightarrow> dict \<Rightarrow> remote_call list \<times> (exn + response)" where
  "delete_devicehub_tag h arguments =
     apsnd (boundary ''deletion_failed'' [])
      (let device_name = dict_get arguments ''device_name'' PNone;
           tag_name = dict_get arguments ''tag_name'' PNone;
           tag_id = dict_get arguments ''tag_id'' PNone;
           tag_ids = dict_get arguments ''tag_ids'' (PList []) in
       issuing
        (if \<not> truthy device_name
           then Inl (McpError INVALID_PARAMS (ParameterRequired ''device_name''))
         else if \<not> truthy tag_name \<and> \<not> truthy tag_id \<and> \<not> truthy tag_ids
           then Inl (McpError INVALID_PARAMS EitherTagNameTagIdOrTagIds)
         else
           then_do (get_litmus_connection h) (\<lambda>connection.
           then_do (find_device_by_name h device_name) (\<lambda>requested_device.
             if \<not> truthy requested_device
               then Inl (McpError INVALID_PARAMS (DeviceNotFound device_name))
             else
               then_do (sdk (list_registers_from_single_device h requested_device)) (\<lambda>tag_list.
               then_do (find_tags_to_delete tag_list tag_name tag_id tag_ids) (\<lambda>found.
                 if fst found = []
                   then Inl (McpError INVALID_PARAMS NoMatchingTags)
                 else Inr found)))))
        (\<lambda>found. delete_call (fst found))
        (\<lambda>found.
           let tags_to_delete = fst found; deleted_tag_names = snd found in
           then_do (run_delete h tags_to_delete) (\<lambda>deleted.
             Inr (format_success_response
               [(''device_name'', device_name),
                (''deleted_count'', PInt (int (length tags_to_delete))),
                (''deleted_tags'', PList deleted_tag_names)]))))"

section \<open>An example hub\<close>

text \<open>
  Two devices; PLC1 has three tags. Temp has an Input and an Output topic, Pressure an
  Input topic only, Flow carries a \<^verbatim>\<open>device_name\<close>. Speed belongs to AHU2. The hub
  answers every mutation with what it was sent.
\<close>

definition plc1 :: pyval where
  "plc1 = PObj [(''name'', PStr ''PLC1''), (''id'', PStr ''d1''), (''driver'', PStr ''drv1'')]"

definition ahu2 :: pyval where
  "ahu2 = PObj [(''name'', PStr ''AHU2''), (''id'', PStr ''d2''), (''driver'', PStr ''drv2''),
                (''metadata'', PNone)]"

definition tag_temp :: pyval where
  "tag_temp = PObj
     [(''tag_name'', PStr ''Temp''), (''id'', PStr ''t1''), (''device'', PStr ''d1''),
      (''value_type'', PStr ''Float''), (''description'', PStr ''inlet''),
      (''properties'', PList []), (''publish_cov'', PBool False),
      (''topics'', PList
         [PObj [(''topic'', PStr ''in1''), (''direction'', PStr ''Input'')],
          PObj [(''topic'', PStr ''out1''), (''direction'', PStr ''Output'')]])]"

definition tag_pressure :: pyval where
  "tag_pressure = PObj
     [(''tag_name'', PStr ''Pressure''), (''id'', PStr ''t2''), (''device'', PStr ''d1''),
      (''topics'', PList [PObj [(''topic'', PStr ''in2''), (''direction'', PStr ''Input'')]])]"

definition tag_flow :: pyval where
  "tag_flow = PObj
     [(''tag_name'', PStr ''Flow''), (''id'', PStr ''t3''), (''device'', PStr ''d1''),
      (''device_name'', PStr ''PLC1''),
      (''topics'', PList [PObj [(''topic'', PStr ''out3''), (''direction'', PStr ''Output'')]])]"

definition tag_speed :: pyval where
  "tag_speed = PObj
     [(''tag_name'', PStr ''Speed''), (''id'', PStr ''t4''), (''device'', PStr ''d2''),
      (''device_name'', PStr ''AHU2'')]"

definition example_hub :: hub where
  "example_hub =
     \<lparr> get_litmus_connection = Inr (),
       list_all_drivers = Inr
         [PObj [(''name'', PStr ''ModbusTCP''), (''id'', PStr ''drv1'')],
          PObj [(''name'', PStr ''OPCUA''), (''id'', PStr ''drv2''), (''version'', PNone)]],
       get_default_properties = (\<lambda>driver. Inr (PList [])),
       list_devices = Inr [plc1, ahu2],
       new_Device = (\<lambda>kwargs. Inr (PObj kwargs)),
       create_device = (\<lambda>device. Inr [(''id'', PStr ''d3'')]),
       list_registers_from_single_device =
         (\<lambda>device. if device = plc1 then Inr [tag_temp, tag_pressure, tag_flow] else Inr []),
       list_all_tags = Inr [tag_temp, tag_pressure, tag_flow, tag_speed],
       new_Tag = (\<lambda>kwargs. Inr (PObj kwargs)),
       create_tags = (\<lambda>ts. Inr ts),
       update_tags = (\<lambda>ts. Inr ts),
       delete_tag = (\<lambda>t. Inr ()),
       delete_tags = (\<lambda>ts. Inr ()),
       get_current_value_on_topic = (\<lambda>topic. Inr (PInt 21)) \<rparr>"

section \<open>Basic facts about the control flow\<close>

lemma then_do_simps [simp]:
  "then_do (Inr x) f = f x"
  "then_do (Inl e) f = Inl e"
  by (simp_all add: then_do_def)

lemma sdk_simps [simp]:
  "sdk (Inr x) = Inr x"
  "sdk (Inl s) = Inl (SdkError s)"
  by (simp_all add: sdk_def)

lemma boundary_Inl_iff:
  "boundary reason extras body = Inl e \<longleftrightarrow> body = Inl e \<and> (\<exists>c m. e = McpError c m)"
  by (auto simp: boundary_def split: sum.splits exn.splits)

lemma boundary_Inr [simp]: "boundary reason extras (Inr r) = Inr r"
  by (simp add: boundary_def)

lemma boundary_McpError [simp]: "boundary reason extras (Inl (McpError c m)) = Inl (McpError c m)"
  by (simp add: boundary_def)

lemma issuing_simps [simp]:
  "issuing (Inl e) call finish = ([], Inl e)"
  "issuing (Inr x) call finish = ([call x], finish x)"
  by (simp_all add: issuing_def)


section \<open>The exception boundary\<close>




section \<open>No remote call on a validation failure\<close>

lemma issuing_validation:
  assumes "\<And>x. prepare = Inr x \<Longrightarrow> boundary reason extras (finish x) \<noteq> Inl (McpError INVALID_PARAMS m)"
    and "snd (apsnd (boundary reason extras) (issuing prepare call finish)) = Inl (McpError INVALID_PARAMS m)"
  shows "fst (apsnd (boundary reason extras) (issuing prepare call finish)) = []"
  using assms by (cases prepare) auto

lemma finish_create_not_validation:
  "boundary reason extras
     (then_do (sdk r) (\<lambda>ts. case ts of
         [] \<Rightarrow> Inl (McpError INTERNAL_ERROR msg)
       | t # others \<Rightarrow> then_do (tag_info t) (\<lambda>info. Inr (g info))))
   \<noteq> Inl (McpError INVALID_PARAMS m)"
proof -
  have "tag_info t \<noteq> Inl (McpError c m')" for t c m'
    by (auto simp: tag_info_def attr_def split: sum.splits pyval.splits option.splits)
  then show ?thesis
    by (cases r; simp add: boundary_Inl_iff split: list.splits)
       (metis then_do_simps sum.exhaust sum.distinct(1))
qed


text \<open>
  Claim C10. When \<^verbatim>\<open>create_devicehub_tag\<close>, \<^verbatim>\<open>update_devicehub_tag\<close> or
  \<^verbatim>\<open>delete_devicehub_tag\<close> ends in an \<open>McpError\<close> classified \<open>INVALID_PARAMS\<close>, it
  has issued no remote call: no create, update or delete reached the hub.
\<close>

theorem validation_failure_issues_no_call:
  "(snd (create_devicehub_tag h arguments) = Inl (McpError INVALID_PARAMS m)
      \<longrightarrow> fst (create_devicehub_tag h arguments) = [])
   \<and> (snd (update_devicehub_tag h arguments) = Inl (McpError INVALID_PARAMS m)
      \<longrightarrow> fst (update_devicehub_tag h arguments) = [])
   \<and> (snd (delete_devicehub_tag h arguments) = Inl (McpError INVALID_PARAMS m)
      \<longrightarrow> fst (delete_devicehub_tag h arguments) = [])"
proof (intro conjI impI)
  assume "snd (create_devicehub_tag h arguments) = Inl (McpError INVALID_PARAMS m)"
  then show "fst (create_devicehub_tag h arguments) = []"
    unfolding create_devicehub_tag_def Let_def
    by (rule issuing_validation [rotated]) (rule finish_create_not_validation)
next
  assume "snd (update_devicehub_tag h arguments) = Inl (McpError INVALID_PARAMS m)"
  then show "fst (update_devicehub_tag h arguments) = []"
    unfolding update_devicehub_tag_def Let_def
    by (rule issuing_validation [rotated]) (rule finish_create_not_validation)
next
  assume "snd (delete_devicehub_tag h arguments) = Inl (McpError INVALID_PARAMS m)"
  then show "fst (delete_devicehub_tag h arguments) = []"
    unfolding delete_devicehub_tag_def Let_def
    by (rule issuing_validation [rotated])
       (auto simp: boundary_Inl_iff run_delete_def then_do_def sdk_def
             split: sum.splits list.splits)
qed

theorem validation_failure_issues_no_call_witness:
  "snd (update_devicehub_tag example_hub
          [(''device_name'', PStr ''PLC1''), (''tag_id'', PStr ''zz'')])
     = Inl (McpError INVALID_PARAMS (TagNotFound (ById (PStr ''zz'')) (PStr ''PLC1'')))
   \<and> fst (update_devicehub_tag example_hub
          [(''device_name'', PStr ''PLC1''), (''tag_id'', PStr ''zz'')]) = []"
proof -
  have failed: "snd (update_devicehub_tag example_hub
          [(''device_name'', PStr ''PLC1''), (''tag_id'', PStr ''zz'')])
     = Inl (McpError INVALID_PARAMS (TagNotFound (ById (PStr ''zz'')) (PStr ''PLC1'')))"
    by code_simp
  with validation_failure_issues_no_call [of example_hub
      "[(''device_name'', PStr ''PLC1''), (''tag_id'', PStr ''zz'')]"
      "TagNotFound (ById (PStr ''zz'')) (PStr ''PLC1'')"]
  show ?thesis by blast
qed


section \<open>The update is a partial merge\<close>

lemma attr_setattr_other: "f \<noteq> a \<Longrightarrow> attr (setattr obj a v) f = attr obj f"
proof (cases obj)
  case (PObj kvs)
  have "map_of (assign a v kvs) f = map_of kvs f" if "f \<noteq> a"
    using that by (induction kvs) auto
  with PObj show "f \<noteq> a \<Longrightarrow> ?thesis" by (simp add: attr_def setattr_def)
qed (simp_all add: setattr_def)

lemma attr_update_field:
  "f \<noteq> a \<or> dict_get arguments a PNone = PNone \<Longrightarrow>
   attr (update_field arguments a obj) f = attr obj f"
  by (auto simp: update_field_def Let_def attr_setattr_other)

lemma attr_merge_fields:
  assumes "f \<notin> {''tag_name'', ''value_type'', ''description'', ''properties'', ''publish_cov''}
           \<or> dict_get arguments f PNone = PNone"
  shows "attr (merge_fields arguments obj) f = attr obj f"
proof -
  have "f \<noteq> a \<or> dict_get arguments a PNone = PNone"
    if "a \<in> {''tag_name'', ''value_type'', ''description'', ''properties'', ''publish_cov''}" for a
    using assms that by blast
  then show ?thesis
    unfolding merge_fields_def by (simp add: attr_update_field)
qed


text \<open>
  Claim C2. When \<^verbatim>\<open>update_devicehub_tag\<close> has resolved the device and found the
  existing tag by \<^verbatim>\<open>tag_id\<close>, it sends one tag to \<^verbatim>\<open>tags.update_tags\<close>, and every
  attribute whose argument is omitted (or null) has on the tag sent the value it had on
  the existing tag. In particular a request with only a description keeps
  \<^verbatim>\<open>tag_name\<close>, \<^verbatim>\<open>value_type\<close>, \<^verbatim>\<open>properties\<close> and \<^verbatim>\<open>publish_cov\<close>.
\<close>

theorem update_keeps_omitted_fields:
  assumes "truthy (dict_get arguments ''device_name'' PNone)"
    and "truthy (dict_get arguments ''tag_id'' PNone)"
    and "get_litmus_connection h = Inr ()"
    and "find_device_by_name h (dict_get arguments ''device_name'' PNone) = Inr requested_device"
    and "truthy requested_device"
    and "list_registers_from_single_device h requested_device = Inr tag_list"
    and "next_by ''id'' (dict_get arguments ''tag_id'' PNone) tag_list = Inr existing_tag"
    and "truthy existing_tag"
  shows "\<exists>sent. fst (update_devicehub_tag h arguments) = [UpdateTags [sent]]
           \<and> (\<forall>f. dict_get arguments f PNone = PNone \<longrightarrow> attr sent f = attr existing_tag f)
           \<and> (dict_get arguments ''tag_name'' PNone = PNone
                \<and> dict_get arguments ''value_type'' PNone = PNone
                \<and> dict_get arguments ''properties'' PNone = PNone
                \<and> dict_get arguments ''publish_cov'' PNone = PNone
              \<longrightarrow> attr sent ''tag_name'' = attr existing_tag ''tag_name''
                \<and> attr sent ''value_type'' = attr existing_tag ''value_type''
                \<and> attr sent ''properties'' = attr existing_tag ''properties''
                \<and> attr sent ''publish_cov'' = attr existing_tag ''publish_cov'')"
proof -
  have "fst (update_devicehub_tag h arguments) = [UpdateTags [merge_fields arguments existing_tag]]"
    unfolding update_devicehub_tag_def Let_def using assms by simp
  then show ?thesis
    by (simp add: attr_merge_fields)
qed

theorem update_keeps_omitted_fields_witness:
  "truthy (dict_get [(''device_name'', PStr ''PLC1''), (''tag_id'', PStr ''t1''),
                     (''description'', PStr ''outlet'')] ''device_name'' PNone)
   \<and> truthy (dict_get [(''device_name'', PStr ''PLC1''), (''tag_id'', PStr ''t1''),
                     (''description'', PStr ''outlet'')] ''tag_id'' PNone)
   \<and> get_litmus_connection example_hub = Inr ()
   \<and> find_device_by_name example_hub (PStr ''PLC1'') = Inr plc1
   \<and> truthy plc1
   \<and> list_registers_from_single_device example_hub plc1 = Inr [tag_temp, tag_pressure, tag_flow]
   \<and> next_by ''id'' (PStr ''t1'') [tag_temp, tag_pressure, tag_flow] = Inr tag_temp
   \<and> truthy tag_temp
   \<and> (\<exists>sent. fst (update_devicehub_tag example_hub
                  [(''device_name'', PStr ''PLC1''), (''tag_id'', PStr ''t1''),
                   (''description'', PStr ''outlet'')]) = [UpdateTags [sent]]
         \<and> attr sent ''tag_name'' = Inr (PStr ''Temp'')
         \<and> attr sent ''value_type'' = Inr (PStr ''Float'')
         \<and> attr sent ''properties'' = Inr (PList [])
         \<and> attr sent ''publish_cov'' = Inr (PBool False))"
proof -
  let ?args = "[(''device_name'', PStr ''PLC1''), (''tag_id'', PStr ''t1''),
                (''description'', PStr ''outlet'')]"
  have name: "dict_get ?args ''device_name'' PNone = PStr ''PLC1''"
    and tid: "dict_get ?args ''tag_id'' PNone = PStr ''t1''"
    by code_simp+
  have h1: "truthy (dict_get ?args ''device_name'' PNone)"
    and h2: "truthy (dict_get ?args ''tag_id'' PNone)"
    and h3: "get_litmus_connection example_hub = Inr ()"
    and h4: "find_device_by_name example_hub (dict_get ?args ''device_name'' PNone) = Inr plc1"
    and h5: "truthy plc1"
    and h6: "list_registers_from_single_device example_hub plc1
              = Inr [tag_temp, tag_pressure, tag_flow]"
    and h7: "next_by ''id'' (dict_get ?args ''tag_id'' PNone) [tag_temp, tag_pressure, tag_flow]
              = Inr tag_temp"
    and h8: "truthy tag_temp"
    by code_simp+
  have omitted: "dict_get ?args ''tag_name'' PNone = PNone"
    "dict_get ?args ''value_type'' PNone = PNone"
    "dict_get ?args ''properties'' PNone = PNone"
    "dict_get ?args ''publish_cov'' PNone = PNone"
    by code_simp+
  have old: "attr tag_temp ''tag_name'' = Inr (PStr ''Temp'')"
    "attr tag_temp ''value_type'' = Inr (PStr ''Float'')"
    "attr tag_temp ''properties'' = Inr (PList [])"
    "attr tag_temp ''publish_cov'' = Inr (PBool False)"
    by code_simp+
  from update_keeps_omitted_fields [OF h1 h2 h3 h4 h5 h6 h7 h8] omitted old
  have "\<exists>sent. fst (update_devicehub_tag example_hub ?args) = [UpdateTags [sent]]
         \<and> attr sent ''tag_name'' = Inr (PStr ''Temp'')
         \<and> attr sent ''value_type'' = Inr (PStr ''Float'')
         \<and> attr sent ''properties'' = Inr (PList [])
         \<and> attr sent ''publish_cov'' = Inr (PBool False)"
    by auto
  with h1 h2 h3 h4 h5 h6 h7 h8 show ?thesis
    unfolding name tid by blast
qed

section \<open>Deleting tags in a batch\<close>

lemma next_by_found:
  "next_by a v xs = Inr x \<Longrightarrow> truthy x \<Longrightarrow> \<exists>w. attr x a = Inr w \<and> py_eq w v"
  by (induction xs) (auto split: sum.splits if_splits)

lemma py_eq_sym: "py_eq a b \<Longrightarrow> py_eq b a"
  by (simp add: py_eq_def)







section \<open>Reading the current value of a tag\<close>



lemma read_prepared:
  assumes "truthy (dict_get arguments ''device_name'' PNone)"
    and "truthy (dict_get arguments ''tag_name'' PNone) \<or> truthy (dict_get arguments ''tag_id'' PNone)"
    and "get_litmus_connection h = Inr ()"
    and "find_device_by_name h (dict_get arguments ''device_name'' PNone) = Inr requested_device"
    and "truthy requested_device"
    and "list_registers_from_single_device h requested_device = Inr tag_list"
    and "find_requested_tag tag_list (dict_get arguments ''tag_name'' PNone)
           (dict_get arguments ''tag_id'' PNone) = Inr (requested_tag, identifier)"
  shows "get_current_value_of_devicehub_tag h arguments =
     apsnd (boundary ''read_failed'' [])
      (issuing
        (if \<not> truthy requested_tag
           then Inl (McpError INVALID_PARAMS
                  (TagNotFound identifier (dict_get arguments ''device_name'' PNone)))
         else
           then_do (attr requested_tag ''topics'') (\<lambda>topics.
           then_do (py_iter topics) (\<lambda>topics.
           then_do (first_output_topic topics) (\<lambda>requested_value_from_topic.
             if \<not> truthy requested_value_from_topic
               then Inl (McpError INTERNAL_ERROR (NoOutputTopic identifier))
             else Inr (requested_value_from_topic, requested_tag)))))
        (\<lambda>selected. CurrentValueOnTopic (fst selected))
        (\<lambda>selected.
           then_do (get_current_value_on_topic h (fst selected)) (\<lambda>value_data.
           then_do (if truthy (dict_get arguments ''tag_name'' PNone)
                    then Inr (dict_get arguments ''tag_name'' PNone)
                    else attr (snd selected) ''tag_name'')
             (\<lambda>result_tag_name.
           then_do (if truthy (dict_get arguments ''tag_id'' PNone)
                    then Inr (dict_get arguments ''tag_id'' PNone)
                    else attr (snd selected) ''id'')
             (\<lambda>result_tag_id.
             Inr (format_success_response
               [(''device_name'', dict_get arguments ''device_name'' PNone),
                (''tag_name'', result_tag_name),
                (''tag_id'', result_tag_id),
                (''data'', value_data)]))))))"
  unfolding get_current_value_of_devicehub_tag_def Let_def using assms by (auto cong: if_cong)






text \<open>
  Claim C8. When both \<^verbatim>\<open>tag_name\<close> and \<^verbatim>\<open>tag_id\<close> are supplied (truthy), the request is
  not rejected: the tag is the first one of that name, whatever \<^verbatim>\<open>tag_id\<close> is, and the
  value of its first Output topic is returned.
\<close>

theorem read_with_both_identifiers_resolves_by_name:
  assumes "truthy (dict_get arguments ''device_name'' PNone)"
    and "truthy (dict_get arguments ''tag_name'' PNone)"
    and "truthy (dict_get arguments ''tag_id'' PNone)"
    and "get_litmus_connection h = Inr ()"
    and "find_device_by_name h (dict_get arguments ''device_name'' PNone) = Inr requested_device"
    and "truthy requested_device"
    and "list_registers_from_single_device h requested_device = Inr tag_list"
    and "next_by ''tag_name'' (dict_get arguments ''tag_name'' PNone) tag_list = Inr requested_tag"
    and "truthy requested_tag"
    and "attr requested_tag ''topics'' = Inr topics"
    and "py_iter topics = Inr topic_list"
    and "first_output_topic topic_list = Inr topic"
    and "truthy topic"
    and "get_current_value_on_topic h topic = Inr value_data"
  shows "find_requested_tag tag_list (dict_get arguments ''tag_name'' PNone)
           (dict_get arguments ''tag_id'' PNone)
         = Inr (requested_tag, ByName (dict_get arguments ''tag_name'' PNone))
       \<and> get_current_value_of_devicehub_tag h arguments =
          ([CurrentValueOnTopic topic],
           Inr (Success
             [(''device_name'', dict_get arguments ''device_name'' PNone),
              (''tag_name'', dict_get arguments ''tag_name'' PNone),
              (''tag_id'', dict_get arguments ''tag_id'' PNone),
              (''data'', value_data)]))"
proof -
  have found: "find_requested_tag tag_list (dict_get arguments ''tag_name'' PNone)
           (dict_get arguments ''tag_id'' PNone)
         = Inr (requested_tag, ByName (dict_get arguments ''tag_name'' PNone))"
    using assms(2,8) by (simp add: find_requested_tag_def)
  have either: "truthy (dict_get arguments ''tag_name'' PNone) \<or> truthy (dict_get arguments ''tag_id'' PNone)"
    using assms(2) by simp
  show ?thesis
    unfolding read_prepared [OF assms(1) either assms(4-7) found]
    using found assms by (simp add: format_success_response_def)
qed

theorem read_with_both_identifiers_resolves_by_name_witness:
  "next_by ''tag_name'' (PStr ''Temp'') [tag_temp, tag_pressure, tag_flow] = Inr tag_temp
   \<and> next_by ''id'' (PStr ''t2'') [tag_temp, tag_pressure, tag_flow] = Inr tag_pressure
   \<and> get_current_value_of_devicehub_tag example_hub
        [(''device_name'', PStr ''PLC1''), (''tag_name'', PStr ''Temp''), (''tag_id'', PStr ''t2'')]
      = ([CurrentValueOnTopic (PStr ''out1'')],
         Inr (Success
           [(''device_name'', PStr ''PLC1''), (''tag_name'', PStr ''Temp''),
            (''tag_id'', PStr ''t2''), (''data'', PInt 21)]))"
proof -
  let ?tags = "[tag_temp, tag_pressure, tag_flow]"
  let ?args = "[(''device_name'', PStr ''PLC1''), (''tag_name'', PStr ''Temp''),
                (''tag_id'', PStr ''t2'')]"
  let ?topics = "PList [PObj [(''topic'', PStr ''in1''), (''direction'', PStr ''Input'')],
                        PObj [(''topic'', PStr ''out1''), (''direction'', PStr ''Output'')]]"
  have args: "dict_get ?args ''device_name'' PNone = PStr ''PLC1''"
    "dict_get ?args ''tag_name'' PNone = PStr ''Temp''"
    "dict_get ?args ''tag_id'' PNone = PStr ''t2''"
    by code_simp+
  have by_id: "next_by ''id'' (PStr ''t2'') ?tags = Inr tag_pressure"
    by code_simp
  have h1: "truthy (dict_get ?args ''device_name'' PNone)"
    and h2: "truthy (dict_get ?args ''tag_name'' PNone)"
    and h3: "truthy (dict_get ?args ''tag_id'' PNone)"
    and h4: "get_litmus_connection example_hub = Inr ()"
    and h5: "find_device_by_name example_hub (dict_get ?args ''device_name'' PNone) = Inr plc1"
    and h6: "truthy plc1"
    and h7: "list_registers_from_single_device example_hub plc1 = Inr ?tags"
    and h8: "next_by ''tag_name'' (dict_get ?args ''tag_name'' PNone) ?tags = Inr tag_temp"
    and h9: "truthy tag_temp"
    and h10: "attr tag_temp ''topics'' = Inr ?topics"
    and h11: "py_iter ?topics = Inr [PObj [(''topic'', PStr ''in1''), (''direction'', PStr ''Input'')],
                        PObj [(''topic'', PStr ''out1''), (''direction'', PStr ''Output'')]]"
    and h12: "first_output_topic [PObj [(''topic'', PStr ''in1''), (''direction'', PStr ''Input'')],
                        PObj [(''topic'', PStr ''out1''), (''direction'', PStr ''Output'')]]
               = Inr (PStr ''out1'')"
    and h13: "truthy (PStr ''out1'')"
    and h14: "get_current_value_on_topic example_hub (PStr ''out1'') = Inr (PInt 21)"
    by code_simp+
  from read_with_both_identifiers_resolves_by_name
    [OF h1 h2 h3 h4 h5 h6 h7 h8 h9 h10 h11 h12 h13 h14] h8 by_id
  show ?thesis unfolding args by simp
qed


lemma boundary_Success:
  "boundary reason extras body = Inr (Success r) \<Longrightarrow> body = Inr (Success r)"
  by (auto simp: boundary_def format_error_response_def split: sum.splits exn.splits)

lemma then_do_Inr_iff: "then_do m f = Inr y \<longleftrightarrow> (\<exists>x. m = Inr x \<and> f x = Inr y)"
  by (cases m) auto

lemma issuing_Success:
  assumes "apsnd (boundary reason extras) (issuing prepare call finish) = (calls, Inr (Success r))"
  shows "\<exists>x. prepare = Inr x \<and> calls = [call x] \<and> finish x = Inr (Success r)"
  using assms by (cases prepare) (auto dest: boundary_Success simp: boundary_Inl_iff)


text \<open>
  Claim C4, as stated, fails: with both identifiers supplied, the payload's \<^verbatim>\<open>tag_id\<close> is
  the caller's, here the id of another tag (Pressure) than the one read (Temp, \<^verbatim>\<open>t1\<close>).
\<close>

theorem read_payload_counterexample:
  "get_current_value_of_devicehub_tag example_hub
      [(''device_name'', PStr ''PLC1''), (''tag_name'', PStr ''Temp''), (''tag_id'', PStr ''t2'')]
    = ([CurrentValueOnTopic (PStr ''out1'')],
       Inr (Success
         [(''device_name'', PStr ''PLC1''), (''tag_name'', PStr ''Temp''),
          (''tag_id'', PStr ''t2''), (''data'', PInt 21)]))
   \<and> find_requested_tag [tag_temp, tag_pressure, tag_flow] (PStr ''Temp'') (PStr ''t2'')
       = Inr (tag_temp, ByName (PStr ''Temp''))
   \<and> attr tag_temp ''id'' = Inr (PStr ''t1'')
   \<and> \<not> py_eq (PStr ''t2'') (PStr ''t1'')"
  by code_simp

text \<open>
  Claim C4, amended. On every successful read, the payload's \<^verbatim>\<open>tag_name\<close> equals
  (Python's \<^verbatim>\<open>==\<close>) the name of the resolved tag; the payload's \<^verbatim>\<open>tag_id\<close> equals the
  id of the resolved tag unless both \<^verbatim>\<open>tag_name\<close> and \<^verbatim>\<open>tag_id\<close> were supplied, and
  then it is the \<^verbatim>\<open>tag_id\<close> the caller supplied.
\<close>

theorem read_payload_names_the_tag:
  assumes "truthy (dict_get arguments ''device_name'' PNone)"
    and "get_litmus_connection h = Inr ()"
    and "find_device_by_name h (dict_get arguments ''device_name'' PNone) = Inr requested_device"
    and "truthy requested_device"
    and "list_registers_from_single_device h requested_device = Inr tag_list"
    and "find_requested_tag tag_list (dict_get arguments ''tag_name'' PNone)
           (dict_get arguments ''tag_id'' PNone) = Inr (requested_tag, identifier)"
    and "get_current_value_of_devicehub_tag h arguments = (calls, Inr (Success result))"
  shows "(\<exists>n. attr requested_tag ''tag_name'' = Inr n \<and> py_eq (dict_get result ''tag_name'' PNone) n)
       \<and> (\<not> (truthy (dict_get arguments ''tag_name'' PNone)
              \<and> truthy (dict_get arguments ''tag_id'' PNone))
          \<longrightarrow> (\<exists>i. attr requested_tag ''id'' = Inr i \<and> py_eq (dict_get result ''tag_id'' PNone) i))
       \<and> (truthy (dict_get arguments ''tag_name'' PNone)
            \<and> truthy (dict_get arguments ''tag_id'' PNone)
          \<longrightarrow> dict_get result ''tag_id'' PNone = dict_get arguments ''tag_id'' PNone)"
proof -
  let ?tn = "dict_get arguments ''tag_name'' PNone"
  let ?tid = "dict_get arguments ''tag_id'' PNone"
  have either: "truthy ?tn \<or> truthy ?tid"
  proof (rule ccontr)
    assume "\<not> (truthy ?tn \<or> truthy ?tid)"
    then have "get_current_value_of_devicehub_tag h arguments
                 = ([], Inl (McpError INVALID_PARAMS EitherTagNameOrTagId))"
      unfolding get_current_value_of_devicehub_tag_def Let_def using assms(1) by simp
    with assms(7) show False by simp
  qed
  note run = assms(7) [unfolded read_prepared [OF assms(1) either assms(2-6)]]
  from issuing_Success [OF run] obtain selected where
    prepared: "(if \<not> truthy requested_tag
           then Inl (McpError INVALID_PARAMS
                  (TagNotFound identifier (dict_get arguments ''device_name'' PNone)))
         else
           then_do (attr requested_tag ''topics'') (\<lambda>topics.
           then_do (py_iter topics) (\<lambda>topics.
           then_do (first_output_topic topics) (\<lambda>requested_value_from_topic.
             if \<not> truthy requested_value_from_topic
               then Inl (McpError INTERNAL_ERROR (NoOutputTopic identifier))
             else Inr (requested_value_from_topic, requested_tag))))) = Inr selected"
    and finished: "then_do (get_current_value_on_topic h (fst selected)) (\<lambda>value_data.
           then_do (if truthy ?tn then Inr ?tn else attr (snd selected) ''tag_name'')
             (\<lambda>result_tag_name.
           then_do (if truthy ?tid then Inr ?tid else attr (snd selected) ''id'')
             (\<lambda>result_tag_id.
             Inr (format_success_response
               [(''device_name'', dict_get arguments ''device_name'' PNone),
                (''tag_name'', result_tag_name),
                (''tag_id'', result_tag_id),
                (''data'', value_data)])))) = Inr (Success result)"
    by blast
  from prepared have tag: "truthy requested_tag" and sel: "snd selected = requested_tag"
    by (auto simp: then_do_Inr_iff split: if_splits)
  from finished [unfolded sel] obtain value_data rn ri where
    rn: "(if truthy ?tn then Inr ?tn else attr requested_tag ''tag_name'') = Inr rn"
    and ri: "(if truthy ?tid then Inr ?tid else attr requested_tag ''id'') = Inr ri"
    and result: "result = [(''device_name'', dict_get arguments ''device_name'' PNone),
                (''tag_name'', rn), (''tag_id'', ri), (''data'', value_data)]"
    by (auto simp: then_do_Inr_iff format_success_response_def)
  have get_rn: "dict_get result ''tag_name'' PNone = rn"
    and get_ri: "dict_get result ''tag_id'' PNone = ri"
    unfolding result by (simp_all add: dict_get_def)
  have by_name: "\<exists>w. attr requested_tag ''tag_name'' = Inr w \<and> py_eq w ?tn" if "truthy ?tn"
    using that assms(6) tag
    by (auto simp: find_requested_tag_def then_do_Inr_iff dest: next_by_found)
  have by_id: "\<exists>w. attr requested_tag ''id'' = Inr w \<and> py_eq w ?tid" if "\<not> truthy ?tn"
    using that assms(6) tag
    by (auto simp: find_requested_tag_def then_do_Inr_iff dest: next_by_found)
  have name: "\<exists>n. attr requested_tag ''tag_name'' = Inr n \<and> py_eq rn n"
  proof (cases "truthy ?tn")
    case True
    with rn have "rn = ?tn" by simp
    with by_name [OF True] show ?thesis by (auto dest: py_eq_sym)
  next
    case False
    with rn show ?thesis by (simp add: py_eq_def)
  qed
  have ident: "\<exists>i. attr requested_tag ''id'' = Inr i \<and> py_eq ri i"
    if "\<not> (truthy ?tn \<and> truthy ?tid)"
  proof (cases "truthy ?tn")
    case True
    with that have "\<not> truthy ?tid" by simp
    with ri show ?thesis by (simp add: py_eq_def)
  next
    case False
    with either have "truthy ?tid" by simp
    with ri have "ri = ?tid" by simp
    with by_id [OF False] show ?thesis by (auto dest: py_eq_sym)
  qed
  have both: "ri = ?tid" if "truthy ?tn \<and> truthy ?tid"
    using that ri by simp
  show ?thesis
    unfolding get_rn get_ri using name ident both by blast
qed


theorem read_payload_names_the_tag_witness:
  "get_current_value_of_devicehub_tag example_hub
      [(''device_name'', PStr ''PLC1''), (''tag_id'', PStr ''t3'')]
    = ([CurrentValueOnTopic (PStr ''out3'')],
       Inr (Success
         [(''device_name'', PStr ''PLC1''), (''tag_name'', PStr ''Flow''),
          (''tag_id'', PStr ''t3''), (''data'', PInt 21)]))
   \<and> (\<exists>n. attr tag_flow ''tag_name'' = Inr n \<and> py_eq (PStr ''Flow'') n)
   \<and> (\<exists>i. attr tag_flow ''id'' = Inr i \<and> py_eq (PStr ''t3'') i)"
proof -
  let ?tags = "[tag_temp, tag_pressure, tag_flow]"
  let ?args = "[(''device_name'', PStr ''PLC1''), (''tag_id'', PStr ''t3'')]"
  let ?result = "[(''device_name'', PStr ''PLC1''), (''tag_name'', PStr ''Flow''),
          (''tag_id'', PStr ''t3''), (''data'', PInt 21)]"
  have h1: "truthy (dict_get ?args ''device_name'' PNone)"
    and h2: "get_litmus_connection example_hub = Inr ()"
    and h3: "find_device_by_name example_hub (dict_get ?args ''device_name'' PNone) = Inr plc1"
    and h4: "truthy plc1"
    and h5: "list_registers_from_single_device example_hub plc1 = Inr ?tags"
    and h6: "find_requested_tag ?tags (dict_get ?args ''tag_name'' PNone)
               (dict_get ?args ''tag_id'' PNone) = Inr (tag_flow, ById (PStr ''t3''))"
    and h7: "get_current_value_of_devicehub_tag example_hub ?args
               = ([CurrentValueOnTopic (PStr ''out3'')], Inr (Success ?result))"
    by code_simp+
  have payload: "dict_get ?result ''tag_name'' PNone = PStr ''Flow''"
    "dict_get ?result ''tag_id'' PNone = PStr ''t3''"
    "\<not> (truthy (dict_get ?args ''tag_name'' PNone) \<and> truthy (dict_get ?args ''tag_id'' PNone))"
    by code_simp+
  from read_payload_names_the_tag [OF h1 h2 h3 h4 h5 h6 h7] payload h7
  show ?thesis by simp
qed

section \<open>Listing all tags with a device filter\<close>

lemma map_exn_length: "map_exn f xs = Inr ys \<Longrightarrow> length ys = length xs"
  by (induction xs arbitrary: ys) (auto split: sum.splits)

lemma mset_insort_lt: "mset (insort_lt lt x ys) = add_mset x (mset ys)"
  by (induction ys) auto

lemma mset_foldr_insort_lt: "mset (foldr (insort_lt lt) kxs []) = mset kxs"
  by (induction kxs) (auto simp: mset_insort_lt)

lemma py_sort_mset:
  assumes "py_sort key lt xs = Inr ys"
  shows "mset ys = mset xs"
proof -
  from assms obtain ks where ks: "map_exn key xs = Inr ks"
    and ys: "(if length xs \<le> 1 then Inr xs
       else if list_all (\<lambda>a. list_all (\<lambda>b. lt a b \<noteq> None) ks) ks
         then Inr (map snd (foldr (insort_lt lt) (zip ks xs) []))
       else Inl TypeError) = Inr ys"
    by (auto simp: py_sort_def then_do_Inr_iff)
  have "mset (map snd (foldr (insort_lt lt) (zip ks xs) []))
          = image_mset snd (mset (foldr (insort_lt lt) (zip ks xs) []))"
    by simp
  also have "\<dots> = mset (map snd (zip ks xs))"
    by (simp add: mset_foldr_insort_lt)
  also have "\<dots> = mset xs"
    using map_exn_length [OF ks] by simp
  finally have "mset (map snd (foldr (insort_lt lt) (zip ks xs) [])) = mset xs" .
  with ys show ?thesis by (auto split: if_splits)
qed

lemma all_tags_loop_kept:
  "all_tags_loop f ts tag_data device_counts = Inr (tag_data', device_counts') \<Longrightarrow>
   \<exists>kept. map_exn tag_info (filter (\<lambda>t. \<not> skipped_by_filter f t) ts) = Inr kept
          \<and> tag_data' = tag_data @ kept"
proof (induction ts arbitrary: tag_data device_counts)
  case Nil
  then show ?case by simp
next
  case (Cons t ts)
  show ?case
  proof (cases "skipped_by_filter f t")
    case True
    with Cons show ?thesis by simp
  next
    case False
    with Cons.prems obtain info counts where info: "tag_info t = Inr info"
      and rest: "all_tags_loop f ts (tag_data @ [info]) counts = Inr (tag_data', device_counts')"
      by (auto simp: Let_def then_do_Inr_iff)
    from Cons.IH [OF rest] obtain kept where
      "map_exn tag_info (filter (\<lambda>t. \<not> skipped_by_filter f t) ts) = Inr kept"
      "tag_data' = (tag_data @ [info]) @ kept"
      by blast
    with False info show ?thesis by simp
  qed
qed


text \<open>
  Claim C5, as stated, fails: with the filter \<^verbatim>\<open>"PLC1"\<close> the list also holds Temp and
  Pressure, which carry no \<^verbatim>\<open>device_name\<close>; Flow is the only tag whose
  \<^verbatim>\<open>device_name\<close> equals the filter.
\<close>

theorem list_all_tags_counterexample:
  "list_all_devicehub_tags example_hub [(''device_name'', PStr ''PLC1'')]
     = Inr (Success
        [(''count'', PInt 3),
         (''tags'', PList
           [PDict [(''tag_name'', PStr ''Flow''), (''id'', PStr ''t3''), (''device'', PStr ''d1'')],
            PDict [(''tag_name'', PStr ''Pressure''), (''id'', PStr ''t2''), (''device'', PStr ''d1'')],
            PDict [(''tag_name'', PStr ''Temp''), (''id'', PStr ''t1''), (''device'', PStr ''d1''),
                   (''value_type'', PStr ''Float''), (''description'', PStr ''inlet''),
                   (''publish_cov'', PBool False)]]),
         (''summary'', PDict [(''by_device'', PList [PList [PStr ''d1'', PInt 3]])]),
         (''filters_applied'', PDict [(''device_name'', PStr ''PLC1'')])])
   \<and> list_all_tags example_hub = Inr [tag_temp, tag_pressure, tag_flow, tag_speed]
   \<and> filter (\<lambda>t. py_eq (getattr t ''device_name'' PNone) (PStr ''PLC1''))
        [tag_temp, tag_pressure, tag_flow, tag_speed] = [tag_flow]
   \<and> getattr tag_temp ''device_name'' PNone = PNone"
  by code_simp

text \<open>
  Claim C5, amended. For every tag collection and every non-empty \<^verbatim>\<open>device_name\<close>
  filter, the tags of a successful \<^verbatim>\<open>list_all_devicehub_tags\<close> are, each once, the
  normalized records of exactly those tags whose \<^verbatim>\<open>device_name\<close> attribute equals the
  filter or is missing, null or empty; the device collection is not consulted.
\<close>

theorem list_all_tags_keeps_tags_without_device_name:
  assumes "list_all_tags h = Inr all_tags"
    and "truthy (dict_get arguments ''device_name'' PNone)"
    and "list_all_devicehub_tags h arguments = Inr (Success result)"
  shows "\<exists>kept tags.
           map_exn tag_info
             (filter (\<lambda>t. \<not> truthy (getattr t ''device_name'' PNone)
                          \<or> py_eq (getattr t ''device_name'' PNone)
                               (dict_get arguments ''device_name'' PNone)) all_tags) = Inr kept
           \<and> dict_get result ''tags'' PNone = PList (map PDict tags)
           \<and> mset tags = mset kept"
proof -
  let ?f = "dict_get arguments ''device_name'' PNone"
  have keep: "(\<lambda>t. \<not> skipped_by_filter ?f t)
      = (\<lambda>t. \<not> truthy (getattr t ''device_name'' PNone) \<or> py_eq (getattr t ''device_name'' PNone) ?f)"
    using assms(2) by (auto simp: skipped_by_filter_def Let_def)
  from assms(3) obtain acc tag_data where
    loop: "all_tags_loop ?f all_tags [] [] = Inr acc"
    and sorted: "py_sort (\<lambda>x. Inr (dict_get x ''device'' (PStr []), dict_get x ''tag_name'' (PStr [])))
                   py_lt_pair (fst acc) = Inr tag_data"
    and result: "result = [(''count'', PInt (int (length tag_data))),
               (''tags'', PList (map PDict tag_data)),
               (''summary'', PDict [(''by_device'', counts_value (snd acc))])]
              @ (if truthy ?f then [(''filters_applied'', PDict [(''device_name'', ?f)])] else [])"
    unfolding list_all_devicehub_tags_def Let_def
    by (auto dest!: boundary_Success simp: then_do_Inr_iff assms(1) format_success_response_def)
  from loop obtain kept where kept: "map_exn tag_info (filter (\<lambda>t. \<not> skipped_by_filter ?f t) all_tags) = Inr kept"
    and acc: "fst acc = kept"
    using all_tags_loop_kept [of ?f all_tags "[]" "[]" "fst acc" "snd acc"] by auto
  have "dict_get result ''tags'' PNone = PList (map PDict tag_data)"
    unfolding result by (simp add: dict_get_def)
  moreover have "mset tag_data = mset kept"
    using py_sort_mset [OF sorted] acc by simp
  ultimately show ?thesis
    using kept unfolding keep by blast
qed


theorem list_all_tags_keeps_tags_without_device_name_witness:
  "list_all_tags example_hub = Inr [tag_temp, tag_pressure, tag_flow, tag_speed]
   \<and> truthy (PStr ''PLC1'')
   \<and> (\<exists>result kept tags.
        list_all_devicehub_tags example_hub [(''device_name'', PStr ''PLC1'')] = Inr (Success result)
        \<and> map_exn tag_info [tag_temp, tag_pressure, tag_flow] = Inr kept
        \<and> dict_get result ''tags'' PNone = PList (map PDict tags)
        \<and> mset tags = mset kept)"
proof -
  let ?args = "[(''device_name'', PStr ''PLC1'')]"
  let ?result = "[(''count'', PInt 3),
         (''tags'', PList
           [PDict [(''tag_name'', PStr ''Flow''), (''id'', PStr ''t3''), (''device'', PStr ''d1'')],
            PDict [(''tag_name'', PStr ''Pressure''), (''id'', PStr ''t2''), (''device'', PStr ''d1'')],
            PDict [(''tag_name'', PStr ''Temp''), (''id'', PStr ''t1''), (''device'', PStr ''d1''),
                   (''value_type'', PStr ''Float''), (''description'', PStr ''inlet''),
                   (''publish_cov'', PBool False)]]),
         (''summary'', PDict [(''by_device'', PList [PList [PStr ''d1'', PInt 3]])]),
         (''filters_applied'', PDict [(''device_name'', PStr ''PLC1'')])]"
  have h1: "list_all_tags example_hub = Inr [tag_temp, tag_pressure, tag_flow, tag_speed]"
    and h2: "truthy (dict_get ?args ''device_name'' PNone)"
    and h3: "list_all_devicehub_tags example_hub ?args = Inr (Success ?result)"
    by code_simp+
  have kept: "filter (\<lambda>t. \<not> truthy (getattr t ''device_name'' PNone)
                          \<or> py_eq (getattr t ''device_name'' PNone)
                               (dict_get ?args ''device_name'' PNone))
                [tag_temp, tag_pressure, tag_flow, tag_speed] = [tag_temp, tag_pressure, tag_flow]"
    by code_simp
  from list_all_tags_keeps_tags_without_device_name [OF h1 h2 h3, unfolded kept] h1 h3
  show ?thesis by auto
qed


section \<open>Listing devices\<close>

lemma devices_loop_filtered:
  "devices_loop f device_list = Inr device_data \<Longrightarrow>
   \<exists>infos. map_exn build_device_info device_list = Inr infos
     \<and> device_data = filter (\<lambda>i. \<not> (truthy f \<and> \<not> py_eq (dict_get i ''driver'' PNone) f)) infos"
proof (induction device_list arbitrary: device_data)
  case Nil
  then show ?case by simp
next
  case (Cons d ds)
  from Cons.prems obtain info rest where info: "build_device_info d = Inr info"
    and rest: "devices_loop f ds = Inr rest"
    and data: "device_data = (if truthy f \<and> \<not> py_eq (dict_get info ''driver'' PNone) f
                              then rest else info # rest)"
    by (auto simp: then_do_Inr_iff split: if_splits)
  from Cons.IH [OF rest] obtain infos where "map_exn build_device_info ds = Inr infos"
    "rest = filter (\<lambda>i. \<not> (truthy f \<and> \<not> py_eq (dict_get i ''driver'' PNone) f)) infos"
    by blast
  with info data show ?case by simp
qed

lemma py_lt_asym: "py_lt a b = Some True \<Longrightarrow> py_lt b a = Some False"
  by (cases "sort_class a"; cases "sort_class b")
     (auto simp: py_lt_def elim!: key_lt.elims)

lemma py_lt_not_less_trans:
  "py_lt z y = Some False \<Longrightarrow> py_lt y x = Some False \<Longrightarrow> py_lt z x = Some False"
  by (cases "sort_class x"; cases "sort_class y"; cases "sort_class z")
     (auto simp: py_lt_def elim!: key_lt.elims)

lemma set_insort_lt: "set (insort_lt lt x ys) = insert x (set ys)"
  by (induction ys) auto

lemma sorted_insort_lt:
  assumes "sorted_wrt (\<lambda>p q. py_lt (fst q) (fst p) = Some False) ys"
    and "\<forall>y\<in>set ys. py_lt (fst y) (fst x) \<noteq> None"
  shows "sorted_wrt (\<lambda>p q. py_lt (fst q) (fst p) = Some False) (insort_lt py_lt x ys)"
  using assms
proof (induction ys)
  case Nil
  then show ?case by simp
next
  case (Cons y ys)
  show ?case
  proof (cases "py_lt (fst y) (fst x) = Some True")
    case True
    then have "py_lt (fst x) (fst y) = Some False" by (rule py_lt_asym)
    with True Cons show ?thesis by (auto simp: set_insort_lt)
  next
    case False
    with Cons.prems(2) have xy: "py_lt (fst y) (fst x) = Some False" by auto
    have "py_lt (fst z) (fst x) = Some False" if "z \<in> set ys" for z
      using that Cons.prems(1) xy by (auto intro: py_lt_not_less_trans)
    with False xy Cons.prems(1) show ?thesis by auto
  qed
qed

lemma sorted_foldr_insort_lt:
  assumes "\<forall>a\<in>set kxs. \<forall>b\<in>set kxs. py_lt (fst a) (fst b) \<noteq> None"
  shows "sorted_wrt (\<lambda>p q. py_lt (fst q) (fst p) = Some False) (foldr (insort_lt py_lt) kxs [])"
  using assms
proof (induction kxs)
  case Nil
  then show ?case by simp
next
  case (Cons kx kxs)
  have "set (foldr (insort_lt py_lt) kxs []) = set kxs"
    by (metis mset_foldr_insort_lt set_mset_mset)
  with Cons show ?case by (auto intro!: sorted_insort_lt)
qed

lemma map_exn_dict_item:
  "map_exn (\<lambda>x. dict_item x k) xs = Inr ks \<Longrightarrow> ks = map (\<lambda>x. dict_get x k PNone) xs"
  by (induction xs arbitrary: ks)
     (auto simp: dict_item_def dict_get_def split: sum.splits option.splits)

lemma sorted_wrt_length_le_1: "length xs \<le> 1 \<Longrightarrow> sorted_wrt R xs"
  by (cases xs) auto

lemma py_sort_sorted:
  assumes "py_sort (\<lambda>x. dict_item x k) py_lt xs = Inr ys"
  shows "sorted_wrt (\<lambda>x y. py_lt (dict_get y k PNone) (dict_get x k PNone) = Some False) ys"
proof -
  let ?key = "\<lambda>x. dict_get x k PNone"
  from assms obtain ks where ks: "map_exn (\<lambda>x. dict_item x k) xs = Inr ks"
    and ys: "(if length xs \<le> 1 then Inr xs
       else if list_all (\<lambda>a. list_all (\<lambda>b. py_lt a b \<noteq> None) ks) ks
         then Inr (map snd (foldr (insort_lt py_lt) (zip ks xs) []))
       else Inl TypeError) = Inr ys"
    by (auto simp: py_sort_def then_do_Inr_iff)
  have keys: "ks = map ?key xs"
    using ks by (rule map_exn_dict_item)
  show ?thesis
  proof (cases "length xs \<le> 1")
    case True
    with ys show ?thesis by (simp add: sorted_wrt_length_le_1)
  next
    case False
    with ys have comparable: "\<forall>a\<in>set ks. \<forall>b\<in>set ks. py_lt a b \<noteq> None"
      and sorted: "ys = map snd (foldr (insort_lt py_lt) (zip ks xs) [])"
      by (auto simp: list_all_iff split: if_splits)
    let ?kxs = "zip ks xs"
    have pairs: "\<forall>p\<in>set ?kxs. fst p = ?key (snd p)"
      unfolding keys by (auto simp: zip_map1 zip_same)
    have "\<forall>a\<in>set ?kxs. \<forall>b\<in>set ?kxs. py_lt (fst a) (fst b) \<noteq> None"
      using comparable by (auto dest!: set_zip_leftD)
    then have by_key: "sorted_wrt (\<lambda>p q. py_lt (fst q) (fst p) = Some False)
        (foldr (insort_lt py_lt) ?kxs [])"
      by (rule sorted_foldr_insort_lt)
    have same: "set (foldr (insort_lt py_lt) ?kxs []) = set ?kxs"
      by (metis mset_foldr_insort_lt set_mset_mset)
    have "sorted_wrt (\<lambda>p q. py_lt (?key (snd q)) (?key (snd p)) = Some False)
        (foldr (insort_lt py_lt) ?kxs [])"
    proof (rule sorted_wrt_mono_rel [OF _ by_key])
      fix p q
      assume "p \<in> set (foldr (insort_lt py_lt) ?kxs [])"
        and "q \<in> set (foldr (insort_lt py_lt) ?kxs [])"
        and "py_lt (fst q) (fst p) = Some False"
      with pairs same show "py_lt (?key (snd q)) (?key (snd p)) = Some False"
        by simp
    qed
    then show ?thesis
      unfolding sorted by (simp add: sorted_wrt_map)
  qed
qed


text \<open>
  Claim C7. The devices of a successful \<^verbatim>\<open>get_devicehub_devices\<close> are sorted ascending
  by name: no device's name is less (Python's \<^verbatim>\<open><\<close>) than the name of a device before
  it. With a \<^verbatim>\<open>filter_by_driver\<close> supplied (truthy: the code takes an empty or null filter
  as none and reports no \<^verbatim>\<open>filters_applied\<close>) they are, each once, exactly the normalized
  devices whose \<^verbatim>\<open>driver\<close> equals the filter; without one they are all normalized
  devices.
\<close>

theorem devices_sorted_and_filtered:
  assumes "list_devices h = Inr device_list"
    and "get_devicehub_devices h arguments = Inr (Success result)"
  shows "\<exists>infos devices.
           map_exn build_device_info device_list = Inr infos
           \<and> dict_get result ''devices'' PNone = PList (map PDict devices)
           \<and> sorted_wrt (\<lambda>x y. py_lt (dict_get y ''name'' PNone) (dict_get x ''name'' PNone)
                                 = Some False) devices
           \<and> (truthy (dict_get arguments ''filter_by_driver'' PNone) \<longrightarrow>
                mset devices =
                  mset (filter (\<lambda>i. py_eq (dict_get i ''driver'' PNone)
                                       (dict_get arguments ''filter_by_driver'' PNone)) infos))
           \<and> (\<not> truthy (dict_get arguments ''filter_by_driver'' PNone) \<longrightarrow>
                mset devices = mset infos)"
proof -
  let ?f = "dict_get arguments ''filter_by_driver'' PNone"
  from assms(2) obtain device_data devices summary where
    loop: "devices_loop ?f device_list = Inr device_data"
    and sorted: "py_sort (\<lambda>x. dict_item x ''name'') py_lt device_data = Inr devices"
    and result: "result = [(''count'', PInt (int (length devices))),
             (''devices'', PList (map PDict devices)),
             (''summary'', PDict summary)]
            @ (if truthy ?f then [(''filters_applied'', PDict [(''driver'', ?f)])] else [])"
    unfolding get_devicehub_devices_def Let_def
    by (auto dest!: boundary_Success simp: then_do_Inr_iff assms(1) format_success_response_def)
  from devices_loop_filtered [OF loop] obtain infos where
    infos: "map_exn build_device_info device_list = Inr infos"
    and data: "device_data = filter (\<lambda>i. \<not> (truthy ?f \<and> \<not> py_eq (dict_get i ''driver'' PNone) ?f)) infos"
    by blast
  have "dict_get result ''devices'' PNone = PList (map PDict devices)"
    unfolding result by (simp add: dict_get_def)
  moreover have "sorted_wrt (\<lambda>x y. py_lt (dict_get y ''name'' PNone) (dict_get x ''name'' PNone)
                                 = Some False) devices"
    using sorted by (rule py_sort_sorted)
  moreover have "mset devices = mset device_data"
    using sorted by (rule py_sort_mset)
  ultimately show ?thesis
    using infos data by (intro exI [of _ infos] exI [of _ devices]) auto
qed


theorem devices_sorted_and_filtered_witness:
  "list_devices example_hub = Inr [plc1, ahu2]
   \<and> truthy (PStr ''drv1'')
   \<and> get_devicehub_devices example_hub [] = Inr (Success
        [(''count'', PInt 2),
         (''devices'', PList
           [PDict [(''name'', PStr ''AHU2''), (''id'', PStr ''d2''), (''driver'', PStr ''drv2'')],
            PDict [(''name'', PStr ''PLC1''), (''id'', PStr ''d1''), (''driver'', PStr ''drv1''),
                   (''metadata'', PStr ''unknown'')]]),
         (''summary'', PDict [(''by_driver'',
            PList [PList [PStr ''drv2'', PInt 1], PList [PStr ''drv1'', PInt 1]])])])
   \<and> py_lt (PStr ''PLC1'') (PStr ''AHU2'') = Some False
   \<and> (\<exists>result infos devices.
        get_devicehub_devices example_hub [(''filter_by_driver'', PStr ''drv1'')]
          = Inr (Success result)
        \<and> map_exn build_device_info [plc1, ahu2] = Inr infos
        \<and> dict_get result ''devices'' PNone = PList (map PDict devices)
        \<and> sorted_wrt (\<lambda>x y. py_lt (dict_get y ''name'' PNone) (dict_get x ''name'' PNone)
                                 = Some False) devices
        \<and> mset devices = mset (filter (\<lambda>i. py_eq (dict_get i ''driver'' PNone) (PStr ''drv1'')) infos)
        \<and> devices = [[(''name'', PStr ''PLC1''), (''id'', PStr ''d1''), (''driver'', PStr ''drv1''),
                       (''metadata'', PStr ''unknown'')]])"
proof -
  let ?args = "[(''filter_by_driver'', PStr ''drv1'')]"
  let ?devices = "[[(''name'', PStr ''PLC1''), (''id'', PStr ''d1''), (''driver'', PStr ''drv1''),
                       (''metadata'', PStr ''unknown'')]]"
  let ?result = "[(''count'', PInt 1), (''devices'', PList (map PDict ?devices)),
         (''summary'', PDict [(''by_driver'', PList [PList [PStr ''drv1'', PInt 1]])]),
         (''filters_applied'', PDict [(''driver'', PStr ''drv1'')])]"
  have h1: "list_devices example_hub = Inr [plc1, ahu2]"
    and h2: "get_devicehub_devices example_hub ?args = Inr (Success ?result)"
    and f: "dict_get ?args ''filter_by_driver'' PNone = PStr ''drv1''"
    and unfiltered: "get_devicehub_devices example_hub [] = Inr (Success
        [(''count'', PInt 2),
         (''devices'', PList
           [PDict [(''name'', PStr ''AHU2''), (''id'', PStr ''d2''), (''driver'', PStr ''drv2'')],
            PDict [(''name'', PStr ''PLC1''), (''id'', PStr ''d1''), (''driver'', PStr ''drv1''),
                   (''metadata'', PStr ''unknown'')]]),
         (''summary'', PDict [(''by_driver'',
            PList [PList [PStr ''drv2'', PInt 1], PList [PStr ''drv1'', PInt 1]])])])"
    and order: "py_lt (PStr ''PLC1'') (PStr ''AHU2'') = Some False"
    by code_simp+
  have devices: "dict_get ?result ''devices'' PNone = PList (map PDict ?devices)"
    by code_simp
  from devices_sorted_and_filtered [OF h1 h2] obtain infos devices where
    "map_exn build_device_info [plc1, ahu2] = Inr infos"
    "dict_get ?result ''devices'' PNone = PList (map PDict devices)"
    "sorted_wrt (\<lambda>x y. py_lt (dict_get y ''name'' PNone) (dict_get x ''name'' PNone)
                                 = Some False) devices"
    "mset devices = mset (filter (\<lambda>i. py_eq (dict_get i ''driver'' PNone) (PStr ''drv1'')) infos)"
    unfolding f by auto
  moreover from this(2) have "devices = ?devices"
    unfolding devices by (auto simp: Cons_eq_map_conv)
  ultimately show ?thesis
    using h1 h2 unfiltered order by (intro conjI exI [of _ ?result] exI [of _ infos] exI [of _ devices]) simp_all
qed

section \<open>Normalization\<close>

lemma map_of_drop_none:
  "distinct (map fst l) \<Longrightarrow>
   map_of (drop_none l) k =
     (case map_of l k of Some v \<Rightarrow> if v = PNone then None else Some v | None \<Rightarrow> None)"
  unfolding drop_none_def
  by (induction l) (auto split: option.splits simp: rev_image_eqI)

lemma getattr_drop_none:
  "distinct (map fst l) \<Longrightarrow>
   getattr (PObj (drop_none l)) k PNone = (case map_of l k of Some v \<Rightarrow> v | None \<Rightarrow> PNone)"
  by (simp add: getattr_def map_of_drop_none split: option.splits)

lemma getattr_drop_none_default:
  "distinct (map fst l) \<Longrightarrow> map_of l k = Some v \<Longrightarrow> v \<noteq> PNone \<Longrightarrow>
   getattr (PObj (drop_none l)) k d = v"
  by (simp add: getattr_def map_of_drop_none)

lemma attr_drop_none:
  "distinct (map fst l) \<Longrightarrow> map_of l k = Some v \<Longrightarrow> v \<noteq> PNone \<Longrightarrow>
   attr (PObj (drop_none l)) k = Inr v"
  by (simp add: attr_def map_of_drop_none)

lemma attr_getattr: "attr r a = Inr v \<Longrightarrow> getattr r a d = v"
  by (auto simp: attr_def getattr_def split: pyval.splits option.splits)

lemma attr_missing_getattr: "attr r a = Inl e \<Longrightarrow> getattr r a d = d"
  by (auto simp: attr_def getattr_def split: pyval.splits option.splits)

lemma driver_info_sparse:
  assumes "driver_info r = Inr m" and "getattr r a PNone = PNone"
  shows "map_of m a = None"
proof -
  from assms(1) obtain n where n: "attr r ''name'' = Inr n"
    and m: "m = drop_none
            [(''name'', n),
             (''id'', getattr r ''id'' PNone),
             (''protocol'', getattr r ''protocol'' PNone),
             (''version'', getattr r ''version'' PNone),
             (''description'', getattr r ''description'' PNone),
             (''category'', getattr r ''category'' PNone)]"
    by (auto simp: driver_info_def split: sum.splits)
  have "getattr r ''name'' PNone = n" using n by (rule attr_getattr)
  then show ?thesis
    unfolding m using assms(2) by (auto simp: map_of_drop_none)
qed

lemma driver_info_idempotent:
  assumes "driver_info r = Inr m" and "getattr r ''name'' PNone \<noteq> PNone"
  shows "driver_info (PObj m) = Inr m"
proof -
  from assms(1) obtain n where n: "attr r ''name'' = Inr n"
    and m: "m = drop_none
            [(''name'', n),
             (''id'', getattr r ''id'' PNone),
             (''protocol'', getattr r ''protocol'' PNone),
             (''version'', getattr r ''version'' PNone),
             (''description'', getattr r ''description'' PNone),
             (''category'', getattr r ''category'' PNone)]"
    by (auto simp: driver_info_def split: sum.splits)
  from n assms(2) have "n \<noteq> PNone" by (simp add: attr_getattr)
  then show ?thesis
    unfolding m driver_info_def by (simp add: attr_drop_none getattr_drop_none)
qed

lemma device_tag_info_sparse:
  assumes "device_tag_info r = Inr m" and "getattr r a PNone = PNone"
  shows "map_of m a = None"
proof -
  from assms(1) obtain n where n: "attr r ''tag_name'' = Inr n"
    and m: "m = drop_none
            [(''tag_name'', n),
             (''id'', getattr r ''id'' PNone),
             (''address'', getattr r ''address'' PNone),
             (''data_type'', getattr r ''data_type'' PNone),
             (''scaling'', getattr r ''scaling'' PNone),
             (''read_write'', getattr r ''read_write'' PNone),
             (''unit'', getattr r ''unit'' PNone),
             (''description'', getattr r ''description'' PNone)]"
    by (auto simp: device_tag_info_def split: sum.splits)
  have "getattr r ''tag_name'' PNone = n" using n by (rule attr_getattr)
  then show ?thesis
    unfolding m using assms(2) by (auto simp: map_of_drop_none)
qed

lemma device_tag_info_idempotent:
  assumes "device_tag_info r = Inr m" and "getattr r ''tag_name'' PNone \<noteq> PNone"
  shows "device_tag_info (PObj m) = Inr m"
proof -
  from assms(1) obtain n where n: "attr r ''tag_name'' = Inr n"
    and m: "m = drop_none
            [(''tag_name'', n),
             (''id'', getattr r ''id'' PNone),
             (''address'', getattr r ''address'' PNone),
             (''data_type'', getattr r ''data_type'' PNone),
             (''scaling'', getattr r ''scaling'' PNone),
             (''read_write'', getattr r ''read_write'' PNone),
             (''unit'', getattr r ''unit'' PNone),
             (''description'', getattr r ''description'' PNone)]"
    by (auto simp: device_tag_info_def split: sum.splits)
  from n assms(2) have "n \<noteq> PNone" by (simp add: attr_getattr)
  then show ?thesis
    unfolding m device_tag_info_def by (simp add: attr_drop_none getattr_drop_none)
qed

lemma tag_info_sparse:
  assumes "tag_info r = Inr m" and "getattr r a PNone = PNone"
  shows "map_of m a = None"
proof -
  from assms(1) obtain n where n: "attr r ''tag_name'' = Inr n"
    and m: "m = drop_none
            [(''tag_name'', n),
             (''id'', getattr r ''id'' PNone),
             (''device'', getattr r ''device'' PNone),
             (''value_type'', getattr r ''value_type'' PNone),
             (''description'', getattr r ''description'' PNone),
             (''publish_cov'', getattr r ''publish_cov'' PNone)]"
    by (auto simp: tag_info_def split: sum.splits)
  have "getattr r ''tag_name'' PNone = n" using n by (rule attr_getattr)
  then show ?thesis
    unfolding m using assms(2) by (auto simp: map_of_drop_none)
qed

lemma tag_info_idempotent:
  assumes "tag_info r = Inr m" and "getattr r ''tag_name'' PNone \<noteq> PNone"
  shows "tag_info (PObj m) = Inr m"
proof -
  from assms(1) obtain n where n: "attr r ''tag_name'' = Inr n"
    and m: "m = drop_none
            [(''tag_name'', n),
             (''id'', getattr r ''id'' PNone),
             (''device'', getattr r ''device'' PNone),
             (''value_type'', getattr r ''value_type'' PNone),
             (''description'', getattr r ''description'' PNone),
             (''publish_cov'', getattr r ''publish_cov'' PNone)]"
    by (auto simp: tag_info_def split: sum.splits)
  from n assms(2) have "n \<noteq> PNone" by (simp add: attr_getattr)
  then show ?thesis
    unfolding m tag_info_def by (simp add: attr_drop_none getattr_drop_none)
qed

lemma build_device_info_fields:
  assumes "build_device_info r = Inr m"
  obtains n where "attr r ''name'' = Inr n"
    and "m = drop_none
            [(''name'', n),
             (''id'', getattr r ''id'' PNone),
             (''driver'', getattr r ''driver'' PNone),
             (''metadata'', getattr r ''metadata'' (PStr ''unknown'')),
             (''description'', getattr r ''description'' PNone),
             (''properties'', getattr r ''properties'' PNone)]"
  using assms by (auto simp: build_device_info_def split: sum.splits)

lemma build_device_info_sparse:
  assumes "build_device_info r = Inr m" and "getattr r a PNone = PNone"
    and "a = ''metadata'' \<longrightarrow> attr r ''metadata'' = Inr PNone"
  shows "map_of m a = None"
proof -
  from assms(1) obtain n where n: "attr r ''name'' = Inr n"
    and m: "m = drop_none
            [(''name'', n),
             (''id'', getattr r ''id'' PNone),
             (''driver'', getattr r ''driver'' PNone),
             (''metadata'', getattr r ''metadata'' (PStr ''unknown'')),
             (''description'', getattr r ''description'' PNone),
             (''properties'', getattr r ''properties'' PNone)]"
    by (rule build_device_info_fields)
  have "getattr r ''name'' PNone = n" using n by (rule attr_getattr)
  moreover have "getattr r ''metadata'' (PStr ''unknown'') = PNone" if "a = ''metadata''"
    using that assms(3) by (simp add: attr_getattr)
  ultimately show ?thesis
    unfolding m using assms(2) by (auto simp: map_of_drop_none)
qed

lemma build_device_info_default:
  assumes "build_device_info r = Inr m" and "attr r ''metadata'' = Inl (AttributeError ''metadata'')"
  shows "map_of m ''metadata'' = Some (PStr ''unknown'')"
proof -
  from assms(1) obtain n where
    m: "m = drop_none
            [(''name'', n),
             (''id'', getattr r ''id'' PNone),
             (''driver'', getattr r ''driver'' PNone),
             (''metadata'', getattr r ''metadata'' (PStr ''unknown'')),
             (''description'', getattr r ''description'' PNone),
             (''properties'', getattr r ''properties'' PNone)]"
    by (rule build_device_info_fields)
  have "getattr r ''metadata'' (PStr ''unknown'') = PStr ''unknown''"
    using assms(2) by (rule attr_missing_getattr)
  then show ?thesis
    unfolding m by (simp add: map_of_drop_none)
qed

lemma build_device_info_idempotent:
  assumes "build_device_info r = Inr m" and "getattr r ''name'' PNone \<noteq> PNone"
    and "attr r ''metadata'' \<noteq> Inr PNone"
  shows "build_device_info (PObj m) = Inr m"
proof -
  from assms(1) obtain n where n: "attr r ''name'' = Inr n"
    and m: "m = drop_none
            [(''name'', n),
             (''id'', getattr r ''id'' PNone),
             (''driver'', getattr r ''driver'' PNone),
             (''metadata'', getattr r ''metadata'' (PStr ''unknown'')),
             (''description'', getattr r ''description'' PNone),
             (''properties'', getattr r ''properties'' PNone)]"
    by (rule build_device_info_fields)
  from n assms(2) have "n \<noteq> PNone" by (simp add: attr_getattr)
  moreover have "getattr r ''metadata'' (PStr ''unknown'') \<noteq> PNone"
    using assms(3) by (cases "attr r ''metadata''") (auto simp: attr_getattr attr_missing_getattr)
  ultimately show ?thesis
    unfolding m build_device_info_def
    by (simp add: attr_drop_none getattr_drop_none getattr_drop_none_default)
qed


text \<open>
  Claim C1, as stated, fails on devices: PLC1 has no \<^verbatim>\<open>metadata\<close> attribute and its
  normalized record has \<^verbatim>\<open>metadata\<close> with the substitute value \<^verbatim>\<open>"unknown"\<close>; AHU2 has
  a null \<^verbatim>\<open>metadata\<close>, which normalization drops, and normalizing the result again (its
  keys read as attributes) adds \<^verbatim>\<open>metadata = "unknown"\<close>, a different mapping.
\<close>

theorem normalization_counterexample:
  "attr plc1 ''metadata'' = Inl (AttributeError ''metadata'')
   \<and> build_device_info plc1
       = Inr [(''name'', PStr ''PLC1''), (''id'', PStr ''d1''), (''driver'', PStr ''drv1''),
              (''metadata'', PStr ''unknown'')]
   \<and> attr ahu2 ''metadata'' = Inr PNone
   \<and> build_device_info ahu2
       = Inr [(''name'', PStr ''AHU2''), (''id'', PStr ''d2''), (''driver'', PStr ''drv2'')]
   \<and> build_device_info
        (PObj [(''name'', PStr ''AHU2''), (''id'', PStr ''d2''), (''driver'', PStr ''drv2'')])
       = Inr [(''name'', PStr ''AHU2''), (''id'', PStr ''d2''), (''driver'', PStr ''drv2''),
              (''metadata'', PStr ''unknown'')]"
  by code_simp


text \<open>
  Claim C1, amended. Whenever the normalization of a raw record (driver, device, or tag in
  either listing) succeeds: every attribute that is null on the record is absent from
  the output, and so is every attribute that is absent on the record, except a device's
  \<^verbatim>\<open>metadata\<close>, which when absent appears with the value \<^verbatim>\<open>"unknown"\<close>. Normalizing the
  output again (its keys read as attributes) yields the same mapping when the record's
  name is not null and, for a device, its \<^verbatim>\<open>metadata\<close> is not null.
\<close>

theorem normalization_sparse_idempotent:
  "(driver_info r = Inr m \<longrightarrow>
      (\<forall>a. getattr r a PNone = PNone \<longrightarrow> map_of m a = None)
      \<and> (getattr r ''name'' PNone \<noteq> PNone \<longrightarrow> driver_info (PObj m) = Inr m))
   \<and> (device_tag_info r = Inr m \<longrightarrow>
      (\<forall>a. getattr r a PNone = PNone \<longrightarrow> map_of m a = None)
      \<and> (getattr r ''tag_name'' PNone \<noteq> PNone \<longrightarrow> device_tag_info (PObj m) = Inr m))
   \<and> (tag_info r = Inr m \<longrightarrow>
      (\<forall>a. getattr r a PNone = PNone \<longrightarrow> map_of m a = None)
      \<and> (getattr r ''tag_name'' PNone \<noteq> PNone \<longrightarrow> tag_info (PObj m) = Inr m))
   \<and> (build_device_info r = Inr m \<longrightarrow>
      (\<forall>a. getattr r a PNone = PNone
            \<and> (a = ''metadata'' \<longrightarrow> attr r ''metadata'' = Inr PNone)
          \<longrightarrow> map_of m a = None)
      \<and> (attr r ''metadata'' = Inl (AttributeError ''metadata'')
          \<longrightarrow> map_of m ''metadata'' = Some (PStr ''unknown''))
      \<and> (getattr r ''name'' PNone \<noteq> PNone \<and> attr r ''metadata'' \<noteq> Inr PNone
          \<longrightarrow> build_device_info (PObj m) = Inr m))"
  using driver_info_sparse [of r m] driver_info_idempotent [of r m]
    device_tag_info_sparse [of r m] device_tag_info_idempotent [of r m]
    tag_info_sparse [of r m] tag_info_idempotent [of r m]
    build_device_info_sparse [of r m] build_device_info_default [of r m]
    build_device_info_idempotent [of r m]
  by blast

theorem normalization_sparse_idempotent_witness:
  "driver_info (PObj [(''name'', PStr ''OPCUA''), (''id'', PStr ''drv2''), (''version'', PNone)])
     = Inr [(''name'', PStr ''OPCUA''), (''id'', PStr ''drv2'')]
   \<and> map_of [(''name'', PStr ''OPCUA''), (''id'', PStr ''drv2'')] ''version'' = None
   \<and> map_of [(''name'', PStr ''OPCUA''), (''id'', PStr ''drv2'')] ''protocol'' = None
   \<and> driver_info (PObj [(''name'', PStr ''OPCUA''), (''id'', PStr ''drv2'')])
     = Inr [(''name'', PStr ''OPCUA''), (''id'', PStr ''drv2'')]
   \<and> device_tag_info tag_pressure = Inr [(''tag_name'', PStr ''Pressure''), (''id'', PStr ''t2'')]
   \<and> device_tag_info (PObj [(''tag_name'', PStr ''Pressure''), (''id'', PStr ''t2'')])
     = Inr [(''tag_name'', PStr ''Pressure''), (''id'', PStr ''t2'')]
   \<and> tag_info tag_pressure
     = Inr [(''tag_name'', PStr ''Pressure''), (''id'', PStr ''t2''), (''device'', PStr ''d1'')]
   \<and> tag_info (PObj [(''tag_name'', PStr ''Pressure''), (''id'', PStr ''t2''), (''device'', PStr ''d1'')])
     = Inr [(''tag_name'', PStr ''Pressure''), (''id'', PStr ''t2''), (''device'', PStr ''d1'')]
   \<and> build_device_info plc1
     = Inr [(''name'', PStr ''PLC1''), (''id'', PStr ''d1''), (''driver'', PStr ''drv1''),
            (''metadata'', PStr ''unknown'')]
   \<and> map_of [(''name'', PStr ''PLC1''), (''id'', PStr ''d1''), (''driver'', PStr ''drv1''),
            (''metadata'', PStr ''unknown'')] ''description'' = None
   \<and> map_of [(''name'', PStr ''PLC1''), (''id'', PStr ''d1''), (''driver'', PStr ''drv1''),
            (''metadata'', PStr ''unknown'')] ''metadata'' = Some (PStr ''unknown'')
   \<and> build_device_info (PObj [(''name'', PStr ''PLC1''), (''id'', PStr ''d1''),
            (''driver'', PStr ''drv1''), (''metadata'', PStr ''unknown'')])
     = Inr [(''name'', PStr ''PLC1''), (''id'', PStr ''d1''), (''driver'', PStr ''drv1''),
            (''metadata'', PStr ''unknown'')]"
proof -
  let ?drv = "PObj [(''name'', PStr ''OPCUA''), (''id'', PStr ''drv2''), (''version'', PNone)]"
  let ?md = "[(''name'', PStr ''OPCUA''), (''id'', PStr ''drv2'')]"
  let ?mt = "[(''tag_name'', PStr ''Pressure''), (''id'', PStr ''t2'')]"
  let ?ma = "[(''tag_name'', PStr ''Pressure''), (''id'', PStr ''t2''), (''device'', PStr ''d1'')]"
  let ?mp = "[(''name'', PStr ''PLC1''), (''id'', PStr ''d1''), (''driver'', PStr ''drv1''),
            (''metadata'', PStr ''unknown'')]"
  have d: "driver_info ?drv = Inr ?md"
    "getattr ?drv ''version'' PNone = PNone"
    "getattr ?drv ''protocol'' PNone = PNone"
    "getattr ?drv ''name'' PNone \<noteq> PNone"
    by code_simp+
  have t: "device_tag_info tag_pressure = Inr ?mt"
    "tag_info tag_pressure = Inr ?ma"
    "getattr tag_pressure ''tag_name'' PNone \<noteq> PNone"
    by code_simp+
  have p: "build_device_info plc1 = Inr ?mp"
    "getattr plc1 ''description'' PNone = PNone"
    "attr plc1 ''metadata'' = Inl (AttributeError ''metadata'')"
    "getattr plc1 ''name'' PNone \<noteq> PNone"
    "attr plc1 ''metadata'' \<noteq> Inr PNone"
    by code_simp+
  have "map_of ?md ''version'' = None" "map_of ?md ''protocol'' = None"
    "driver_info (PObj ?md) = Inr ?md"
    using normalization_sparse_idempotent [of ?drv ?md] d by blast+
  moreover have "device_tag_info (PObj ?mt) = Inr ?mt"
    using normalization_sparse_idempotent [of tag_pressure ?mt] t by blast
  moreover have "tag_info (PObj ?ma) = Inr ?ma"
    using normalization_sparse_idempotent [of tag_pressure ?ma] t by blast
  moreover have "map_of ?mp ''description'' = None"
    "map_of ?mp ''metadata'' = Some (PStr ''unknown'')"
    "build_device_info (PObj ?mp) = Inr ?mp"
    using normalization_sparse_idempotent [of plc1 ?mp] p by auto
  ultimately show ?thesis
    using d(1) t(1,2) p(1) by simp
qed

end
